theory Spec2Isabelle
  imports Complex_Main "HOL-Library.Multiset"
begin

section \<open>Data preparation\<close>

text \<open>
  The repository is two notebooks, \<^verbatim>\<open>Boston Housing - XGBoost (Deploy) - High Level\<close> and
  its hyperparameter-tuning sibling. Neither defines a function: every statement is a call into
  pandas, scikit-learn, numpy, matplotlib or the SageMaker client. The calls whose results the
  notebooks compute with locally (data frames, the split, CSV text, parsing of the response) are
  written out below as functions; whatever the platform decides (the dataset, the random shuffle,
  the answers of the service) enters as a parameter.

  Numbers are of an arbitrary type \<open>'v\<close>: the notebooks never do arithmetic on a cell.
\<close>

datatype error =
    ValueError
  | IndexError
  | InvalidIndexError
  | UnicodeDecodeError
  | LibraryError string

datatype label = IntLabel int | StrLabel string

text \<open>A pandas frame: column labels, row labels, and the rows themselves.\<close>

record 'v dataframe =
  df_columns :: "label list"
  df_index :: "nat list"
  df_rows :: "'v list list"

text \<open>What \<^verbatim>\<open>load_boston()\<close> returns, as far as the notebooks read it.\<close>

record 'v bunch =
  data :: "'v list list"
  target :: "'v list"
  feature_names :: "string list"

text \<open>
  \<^verbatim>\<open>pd.DataFrame(values, columns=cols)\<close>: rows are labelled \<open>0, 1, ...\<close>; a row whose width
  differs from the number of column labels is the shape mismatch pandas rejects.
\<close>

definition DataFrame :: "'v list list \<Rightarrow> label list \<Rightarrow> error + 'v dataframe" where
  "DataFrame vals cols =
     (if list_all (\<lambda>r. length r = length cols) vals
      then Inr \<lparr>df_columns = cols, df_index = [0..<length vals], df_rows = vals\<rparr>
      else Inl ValueError)"

text \<open>Positional row selection; a position past the end raises.\<close>

definition iloc :: "'v dataframe \<Rightarrow> nat list \<Rightarrow> error + 'v dataframe" where
  "iloc df ps =
     (if list_all (\<lambda>p. p < length (df_rows df) \<and> p < length (df_index df)) ps
      then Inr (df\<lparr>df_index := map (\<lambda>p. df_index df ! p) ps,
                   df_rows := map (\<lambda>p. df_rows df ! p) ps\<rparr>)
      else Inl IndexError)"

text \<open>Sequencing of calls that may raise: the first exception ends the computation.\<close>

definition and_then :: "error + 'a \<Rightarrow> ('a \<Rightarrow> error + 'b) \<Rightarrow> error + 'b" where
  "and_then r k = (case r of Inl e \<Rightarrow> Inl e | Inr x \<Rightarrow> k x)"

text \<open>
  \<^verbatim>\<open>sklearn.model_selection.train_test_split(X, Y, test_size=t)\<close> with the default shuffle:
  both frames must have the same number of rows; \<open>n_test = ceil(t * n)\<close>,
  \<open>n_train = n - n_test\<close>; a split that would leave the training set empty is refused with
  a \<^verbatim>\<open>ValueError\<close> (scikit-learn 0.21 and later); the first \<open>n_test\<close> positions of a random
  permutation select the test rows and the next \<open>n_train\<close> the training rows, the same
  positions in both frames.
  The permutation the random generator draws is the parameter \<open>perm\<close>; \<open>t\<close> is the decimal
  literal of the call as an exact fraction. The result order is that of the library:
  \<open>(X_train, X_test, Y_train, Y_test)\<close>.
\<close>

definition train_test_split ::
  "nat list \<Rightarrow> 'v dataframe \<Rightarrow> 'v dataframe \<Rightarrow> rat \<Rightarrow>
     error + ('v dataframe \<times> 'v dataframe \<times> 'v dataframe \<times> 'v dataframe)" where
  "train_test_split perm X Y test_size =
     (let n_samples = length (df_rows X) in
      if length (df_rows Y) \<noteq> n_samples then Inl ValueError
      else
        let n_test = nat \<lceil>test_size * of_nat n_samples\<rceil>;
            n_train = n_samples - n_test
        in if n_train = 0 then Inl ValueError
           else
             let ind_test = take n_test perm;
                 ind_train = take n_train (drop n_test perm)
             in and_then (iloc X ind_train) (\<lambda>X_train.
                and_then (iloc X ind_test) (\<lambda>X_test.
                and_then (iloc Y ind_train) (\<lambda>Y_train.
                and_then (iloc Y ind_test) (\<lambda>Y_test.
                  Inr (X_train, X_test, Y_train, Y_test))))))"

text \<open>The six frames the data-preparation cell leaves behind.\<close>

record 'v splits =
  X_train :: "'v dataframe"
  X_val :: "'v dataframe"
  X_test :: "'v dataframe"
  Y_train :: "'v dataframe"
  Y_val :: "'v dataframe"
  Y_test :: "'v dataframe"

text \<open>
  The cell "Step 2: Preparing and splitting the data", the same in both notebooks:
  \<^verbatim>\<open>
  X_bos_pd = pd.DataFrame(boston.data, columns=boston.feature_names)
  Y_bos_pd = pd.DataFrame(boston.target)
  X_train, X_test, Y_train, Y_test = train_test_split(X_bos_pd, Y_bos_pd, test_size=0.33)
  X_train, X_val, Y_train, Y_val = train_test_split(X_train, Y_train, test_size=0.33)
  \<close>
  The second call rebinds \<open>X_train\<close> and \<open>Y_train\<close>; \<open>perm1\<close> and \<open>perm2\<close> are the two
  shuffles drawn.
\<close>

definition split_cell :: "nat list \<Rightarrow> nat list \<Rightarrow> 'v bunch \<Rightarrow> error + 'v splits" where
  "split_cell perm1 perm2 boston =
     and_then (DataFrame (data boston) (map StrLabel (feature_names boston))) (\<lambda>X_bos_pd.
     and_then (DataFrame (map (\<lambda>t. [t]) (target boston)) [IntLabel 0]) (\<lambda>Y_bos_pd.
     and_then (train_test_split perm1 X_bos_pd Y_bos_pd (33 / 100))
       (\<lambda>(X_train1, X_test1, Y_train1, Y_test1).
     and_then (train_test_split perm2 X_train1 Y_train1 (33 / 100))
       (\<lambda>(X_train2, X_val2, Y_train2, Y_val2).
          Inr \<lparr>X_train = X_train2, X_val = X_val2, X_test = X_test1,
               Y_train = Y_train2, Y_val = Y_val2, Y_test = Y_test1\<rparr>))))"

text \<open>
  Vocabulary for the properties of the split: \<open>ceil(0.33 * n)\<close>; the rows at given positions
  of a frame; and a pair of frames whose rows are, label by label, the feature row and the
  target of the same row of the dataset.
\<close>

definition n_test_of :: "nat \<Rightarrow> nat" where
  "n_test_of n = nat \<lceil>(33 / 100 :: rat) * of_nat n\<rceil>"

definition pick :: "'v dataframe \<Rightarrow> nat list \<Rightarrow> 'v dataframe" where
  "pick df ps = df\<lparr>df_index := map (\<lambda>p. df_index df ! p) ps,
                    df_rows := map (\<lambda>p. df_rows df ! p) ps\<rparr>"

definition paired :: "'v bunch \<Rightarrow> 'v dataframe \<Rightarrow> 'v dataframe \<Rightarrow> bool" where
  "paired boston X Y \<longleftrightarrow>
     df_index Y = df_index X \<and>
     df_rows X = map (\<lambda>i. data boston ! i) (df_index X) \<and>
     df_rows Y = map (\<lambda>i. [target boston ! i]) (df_index X)"

text \<open>A four-row dataset of the Boston shape (13 features), for concrete runs.\<close>

definition demo_boston :: "int bunch" where
  "demo_boston =
     \<lparr>data = [[1, 2, 3, 4, 5, 6, 7, 8, 9, 10, 11, 12, 13],
              [101, 102, 103, 104, 105, 106, 107, 108, 109, 110, 111, 112, 113],
              [201, 202, 203, 204, 205, 206, 207, 208, 209, 210, 211, 212, 213],
              [301, 302, 303, 304, 305, 306, 307, 308, 309, 310, 311, 312, 313]],
      target = [24, 21, 34, 33],
      feature_names = [''CRIM'', ''ZN'', ''INDUS'', ''CHAS'', ''NOX'', ''RM'', ''AGE'', ''DIS'',
                       ''RAD'', ''TAX'', ''PTRATIO'', ''B'', ''LSTAT'']\<rparr>"

text \<open>Its first two rows alone: a dataset too small for the two splits.\<close>

definition tiny_boston :: "int bunch" where
  "tiny_boston =
     \<lparr>data = take 2 (data demo_boston), target = take 2 (target demo_boston),
      feature_names = feature_names demo_boston\<rparr>"

section \<open>CSV text and the response parser\<close>

text \<open>
  \<^verbatim>\<open>pd.concat([A, B], axis=1)\<close>: the columns of \<open>B\<close> to the right of those of \<open>A\<close>, rows
  matched by label. With equal row labels the rows are joined position by position; otherwise
  the labels are united and a frame that lacks a label contributes missing values (\<open>nan\<close>);
  duplicate labels cannot be matched then.
\<close>

definition reindex :: "'v \<Rightarrow> 'v dataframe \<Rightarrow> nat list \<Rightarrow> 'v list list" where
  "reindex nan df idx =
     map (\<lambda>i. case map_of (zip (df_index df) (df_rows df)) i of
                 Some r \<Rightarrow> r
               | None \<Rightarrow> replicate (length (df_columns df)) nan) idx"

definition concat_axis1 :: "'v \<Rightarrow> 'v dataframe \<Rightarrow> 'v dataframe \<Rightarrow> error + 'v dataframe" where
  "concat_axis1 nan A B =
     (if df_index A = df_index B
      then Inr \<lparr>df_columns = df_columns A @ df_columns B, df_index = df_index A,
                df_rows = map2 (@) (df_rows A) (df_rows B)\<rparr>
      else if \<not> distinct (df_index A) \<or> \<not> distinct (df_index B) then Inl InvalidIndexError
      else
        let idx = sort (remdups (df_index A @ df_index B))
        in Inr \<lparr>df_columns = df_columns A @ df_columns B, df_index = idx,
                 df_rows = map2 (@) (reindex nan A idx) (reindex nan B idx)\<rparr>)"

text \<open>
  \<^verbatim>\<open>frame.to_csv(path, header=h, index=i)\<close>: one record per row, preceded by a record of the
  column labels when \<open>h\<close>, each record led by the row label when \<open>i\<close>; fields are separated by
  commas and every record ends with a newline. How a field is printed (the decimal form of a
  float) is the parameter \<open>fmt\<close>. pandas writes through Python's \<^verbatim>\<open>csv\<close> module with its
  default \<^verbatim>\<open>QUOTE_MINIMAL\<close>: a printed field that contains the separator, a double quote or
  the line terminator is enclosed in double quotes with every double quote inside it doubled,
  and a record that is a single empty field is written as \<^verbatim>\<open>""\<close>.
\<close>

datatype 'v field = FValue 'v | FIndex nat | FLabel label | FBlank

fun join :: "string \<Rightarrow> string list \<Rightarrow> string" where
  "join sep [] = []"
| "join sep [x] = x"
| "join sep (x # y # ys) = x @ sep @ join sep (y # ys)"

definition csv_records :: "'v dataframe \<Rightarrow> bool \<Rightarrow> bool \<Rightarrow> 'v field list list" where
  "csv_records df header index =
     (if header then [(if index then [FBlank] else []) @ map FLabel (df_columns df)] else [])
     @ map (\<lambda>(i, r). (if index then [FIndex i] else []) @ map FValue r)
         (zip (df_index df) (df_rows df))"

definition needs_quotes :: "string \<Rightarrow> bool" where
  "needs_quotes s \<longleftrightarrow> list_ex (\<lambda>c. c = CHR '','' \<or> c = CHR 0x22 \<or> c = CHR 0x0A) s"

definition quote_minimal :: "string \<Rightarrow> string" where
  "quote_minimal s =
     (if needs_quotes s
      then [CHR 0x22] @ concat (map (\<lambda>c. if c = CHR 0x22 then [CHR 0x22, CHR 0x22] else [c]) s)
             @ [CHR 0x22]
      else s)"

definition csv_row :: "string list \<Rightarrow> string" where
  "csv_row cells =
     (if cells = [[]] then [CHR 0x22, CHR 0x22] else join '','' (map quote_minimal cells))
     @ [CHR 0x0A]"

definition to_csv :: "('v field \<Rightarrow> string) \<Rightarrow> 'v dataframe \<Rightarrow> bool \<Rightarrow> bool \<Rightarrow> string" where
  "to_csv fmt df header index =
     concat (map (\<lambda>r. csv_row (map fmt r)) (csv_records df header index))"

text \<open>
  Reading CSV text back, as the consumer of the files does: a comma ends a field and a
  newline ends a record, except inside double quotes; a doubled double quote inside quotes
  stands for one. The result is the list of records, each the list of its fields.
\<close>

datatype csv_state = Unquoted | Quoted | Quote_seen

fun csv_read :: "csv_state \<Rightarrow> string \<Rightarrow> string list \<Rightarrow> string \<Rightarrow> string list list" where
  "csv_read st cur row [] = (if cur = [] \<and> row = [] then [] else [row @ [cur]])"
| "csv_read Quoted cur row (c # cs) =
     (if c = CHR 0x22 then csv_read Quote_seen cur row cs
      else csv_read Quoted (cur @ [c]) row cs)"
| "csv_read Quote_seen cur row (c # cs) =
     (if c = CHR 0x22 then csv_read Quoted (cur @ [c]) row cs
      else if c = CHR '','' then csv_read Unquoted [] (row @ [cur]) cs
      else if c = CHR 0x0A then (row @ [cur]) # csv_read Unquoted [] [] cs
      else csv_read Unquoted (cur @ [c]) row cs)"
| "csv_read Unquoted cur row (c # cs) =
     (if c = CHR 0x22 then csv_read Quoted cur row cs
      else if c = CHR '','' then csv_read Unquoted [] (row @ [cur]) cs
      else if c = CHR 0x0A then (row @ [cur]) # csv_read Unquoted [] [] cs
      else csv_read Unquoted (cur @ [c]) row cs)"

definition csv_rows :: "string \<Rightarrow> string list list" where
  "csv_rows s = csv_read Unquoted [] [] s"

text \<open>
  \<^verbatim>\<open>os.path.join(a, b)\<close> for two components.
\<close>

definition path_join :: "string \<Rightarrow> string \<Rightarrow> string" where
  "path_join a b =
     (if b \<noteq> [] \<and> hd b = CHR ''/'' then b
      else if a = [] \<or> last a = CHR ''/'' then a @ b
      else a @ ''/'' @ b)"

text \<open>
  \<^verbatim>\<open>response.decode('utf-8')\<close>. A Python string is represented by its UTF-8 bytes, so decoding
  returns the bytes unchanged when they are well-formed UTF-8 and raises otherwise.
\<close>

definition cont :: "nat \<Rightarrow> bool" where
  "cont b \<longleftrightarrow> 128 \<le> b \<and> b \<le> 191"

fun utf8_ok :: "nat list \<Rightarrow> bool" where
  "utf8_ok [] = True"
| "utf8_ok (b # bs) =
     (if b < 128 then utf8_ok bs
      else if 194 \<le> b \<and> b \<le> 223 then
        (case bs of c1 # r \<Rightarrow> cont c1 \<and> utf8_ok r | _ \<Rightarrow> False)
      else if 224 \<le> b \<and> b \<le> 239 then
        (case bs of c1 # c2 # r \<Rightarrow>
             cont c1 \<and> (b = 224 \<longrightarrow> 160 \<le> c1) \<and> (b = 237 \<longrightarrow> c1 \<le> 159) \<and> cont c2 \<and> utf8_ok r
         | _ \<Rightarrow> False)
      else if 240 \<le> b \<and> b \<le> 244 then
        (case bs of c1 # c2 # c3 # r \<Rightarrow>
             cont c1 \<and> (b = 240 \<longrightarrow> 144 \<le> c1) \<and> (b = 244 \<longrightarrow> c1 \<le> 143) \<and> cont c2 \<and> cont c3
               \<and> utf8_ok r
         | _ \<Rightarrow> False)
      else False)"

definition decode_utf8 :: "string \<Rightarrow> error + string" where
  "decode_utf8 bs = (if utf8_ok (map of_char bs) then Inr bs else Inl UnicodeDecodeError)"

text \<open>
  \<^verbatim>\<open>np.fromstring(s, sep=sep)\<close> in text mode: read a number, skip a separator (with any
  white space around it), and repeat; reading stops at the first position where no number or
  no separator is found, or at the end of the string. The number reader (C's \<open>strtod\<close>: the
  value and the unread rest, or nothing) is the parameter \<open>strtod\<close>.
\<close>

definition is_space :: "char \<Rightarrow> bool" where
  "is_space c \<longleftrightarrow> of_char c \<in> {9, 10, 11, 12, 13, 32 :: nat}"

definition skip_sep :: "string \<Rightarrow> string \<Rightarrow> string option" where
  "skip_sep sep s =
     (let s1 = dropWhile is_space s
      in if take (length sep) s1 = sep
         then Some (dropWhile is_space (drop (length sep) s1))
         else None)"

function fromstring :: "(string \<Rightarrow> ('v \<times> string) option) \<Rightarrow> string \<Rightarrow> string \<Rightarrow> 'v list" where
  "fromstring strtod s sep =
     (case strtod s of
        None \<Rightarrow> []
      | Some (v, rest) \<Rightarrow>
          if length rest < length s
          then v # (case skip_sep sep rest of
                      None \<Rightarrow> []
                    | Some rest' \<Rightarrow> fromstring strtod rest' sep)
          else [])"
  by pat_completeness auto
termination
proof (relation "measure (\<lambda>(strtod, s, sep). length s)")
  show "wf (measure (\<lambda>(strtod, s, sep). length s))" by simp
next
  fix strtod :: "string \<Rightarrow> ('v \<times> string) option" and s sep :: string
    and x2 :: "'v \<times> string" and v :: 'v and rest rest' :: string
  assume "length rest < length s" and "skip_sep sep rest = Some rest'"
  moreover have "length rest' \<le> length rest"
  proof -
    have "length (dropWhile is_space (drop (length sep) (dropWhile is_space rest)))
            \<le> length (drop (length sep) (dropWhile is_space rest))"
      by (rule length_dropWhile_le)
    also have "\<dots> \<le> length (dropWhile is_space rest)" by simp
    also have "\<dots> \<le> length rest" by (rule length_dropWhile_le)
    finally have "length (dropWhile is_space (drop (length sep) (dropWhile is_space rest)))
                    \<le> length rest" .
    with \<open>skip_sep sep rest = Some rest'\<close> show ?thesis
      by (auto simp: skip_sep_def Let_def split: if_splits)
  qed
  ultimately show "((strtod, rest', sep), (strtod, s, sep)) \<in> measure (\<lambda>(strtod, s, sep). length s)"
    by simp
qed

declare fromstring.simps [simp del]

section \<open>The SageMaker client objects\<close>

text \<open>
  The objects of the client library are records of the configuration the notebooks give them;
  a method that talks to the service is a call to the environment below.
\<close>

record session =
  boto_region_name :: string

datatype hp = HInt int | HNum rat | HStr string

record estimator =
  image_name :: string
  role :: string
  train_instance_count :: nat
  train_instance_type :: string
  output_path :: string
  sagemaker_session :: session
  hyperparameters :: "(string \<times> hp) list"

record s3_input =
  s3_data :: string
  input_content_type :: string

datatype param_range = IntegerParameter int int | ContinuousParameter rat rat

record tuner =
  tuned_estimator :: estimator
  objective_metric_name :: string
  objective_type :: string
  max_jobs :: nat
  max_parallel_jobs :: nat
  hyperparameter_ranges :: "(string \<times> param_range) list"

datatype serializer = csv_serializer

record predictor =
  endpoint :: string
  content_type :: "string option"
  serializer :: "serializer option"

record transformer =
  model_name :: string
  instance_count :: nat
  instance_type :: string
  transformer_output_path :: string

text \<open>
  \<^verbatim>\<open>sagemaker.estimator.Estimator(image, role, train_instance_count=, train_instance_type=,
  output_path=, sagemaker_session=)\<close> and \<^verbatim>\<open>estimator.set_hyperparameters(**kwargs)\<close>.
\<close>

definition Estimator :: "string \<Rightarrow> string \<Rightarrow> nat \<Rightarrow> string \<Rightarrow> string \<Rightarrow> session \<Rightarrow> estimator" where
  "Estimator img r n t out sess =
     \<lparr>image_name = img, role = r, train_instance_count = n, train_instance_type = t,
      output_path = out, sagemaker_session = sess, hyperparameters = []\<rparr>"

definition set_hyperparameters :: "estimator \<Rightarrow> (string \<times> hp) list \<Rightarrow> estimator" where
  "set_hyperparameters est kwargs =
     est\<lparr>hyperparameters :=
           filter (\<lambda>(k, v). k \<notin> set (map fst kwargs)) (hyperparameters est) @ kwargs\<rparr>"

section \<open>Steps, the environment, and running a notebook\<close>

text \<open>
  A run of a notebook is recorded as the list of calls it performs, in order, each with the
  arguments the notebook passes.
\<close>

datatype 'v pydata = PFrame "'v dataframe" | PArray "'v list"

datatype 'v step =
    Session_new
  | Get_execution_role
  | Load_boston
  | Split_data
  | Path_exists string
  | Makedirs string
  | Concat_columns
  | To_csv "'v dataframe" string bool bool
  | Upload_data string string
  | Get_image_uri string string
  | Default_bucket
  | Estimator_new estimator
  | Set_hyperparameters "(string \<times> hp) list"
  | Estimator_fit estimator "(string \<times> s3_input) list"
  | Estimator_deploy estimator nat string
  | Predict predictor "'v list list"
  | Decode string
  | Fromstring string string
  | Scatter "'v pydata" "'v pydata"
  | Plot_label string string
  | Delete_endpoint predictor
  | Shell string
  | Tuner_new tuner
  | Tuner_fit tuner "(string \<times> s3_input) list"
  | Tuner_wait tuner
  | Best_training_job tuner
  | Estimator_attach string
  | Transformer_new estimator nat string
  | Transform transformer string string string
  | Transformer_wait transformer
  | Read_csv string

text \<open>
  Everything the notebooks do not decide: the dataset scikit-learn ships, the shuffles its
  random generator draws, the local file system, how the platform prints and reads a float,
  and the answer of every call to the SageMaker client (a result, or the exception raised).
\<close>

record 'v env =
  session_new :: "error + session"
  get_execution_role :: "error + string"
  load_boston :: "error + 'v bunch"
  rng_permutation :: "nat \<Rightarrow> nat list"
  path_exists :: "string \<Rightarrow> bool"
  makedirs :: "string \<Rightarrow> error + unit"
  write_file :: "string \<Rightarrow> string \<Rightarrow> error + unit"
  float_format :: "'v field \<Rightarrow> string"
  nan :: "'v"
  strtod :: "string \<Rightarrow> ('v \<times> string) option"
  upload_data :: "session \<Rightarrow> string \<Rightarrow> string \<Rightarrow> error + string"
  get_image_uri :: "string \<Rightarrow> string \<Rightarrow> error + string"
  default_bucket :: "session \<Rightarrow> error + string"
  fit :: "estimator \<Rightarrow> (string \<times> s3_input) list \<Rightarrow> error + unit"
  deploy :: "estimator \<Rightarrow> nat \<Rightarrow> string \<Rightarrow> error + predictor"
  predict :: "predictor \<Rightarrow> 'v list list \<Rightarrow> error + string"
  delete_endpoint :: "predictor \<Rightarrow> error + unit"
  tuner_fit :: "tuner \<Rightarrow> (string \<times> s3_input) list \<Rightarrow> error + unit"
  tuner_wait :: "tuner \<Rightarrow> error + unit"
  best_training_job :: "tuner \<Rightarrow> error + string"
  attach :: "string \<Rightarrow> error + estimator"
  transformer_new :: "estimator \<Rightarrow> nat \<Rightarrow> string \<Rightarrow> error + transformer"
  transform :: "transformer \<Rightarrow> string \<Rightarrow> string \<Rightarrow> string \<Rightarrow> error + unit"
  transformer_wait :: "transformer \<Rightarrow> error + unit"
  read_csv :: "string \<Rightarrow> error + 'v dataframe"

text \<open>
  The outcome of a run: the exception that ended it, if any, and the steps performed. A
  statement is performed and recorded; if it raises, the run ends there with that exception
  (the notebooks contain no \<^verbatim>\<open>try\<close>), otherwise the rest of the notebook runs with its result.
  \<open>stmt_if\<close> is the one-armed \<^verbatim>\<open>if\<close>.
\<close>

type_synonym 'v run = "error option \<times> 'v step list"

definition stmt :: "'v step \<Rightarrow> error + 'a \<Rightarrow> ('a \<Rightarrow> 'v run) \<Rightarrow> 'v run" where
  "stmt c r k =
     (case r of
        Inl e \<Rightarrow> (Some e, [c])
      | Inr x \<Rightarrow> (case k x of (outcome, steps) \<Rightarrow> (outcome, c # steps)))"

definition stmt_if :: "bool \<Rightarrow> 'v step \<Rightarrow> error + unit \<Rightarrow> (unit \<Rightarrow> 'v run) \<Rightarrow> 'v run" where
  "stmt_if b c r k = (if b then stmt c r k else k ())"

definition finished :: "'v run" where
  "finished = (None, [])"

section \<open>The two notebooks\<close>

text \<open>
  \<^verbatim>\<open>Boston Housing - XGBoost (Deploy) - High Level.ipynb\<close>, statement by statement. The
  assignments to \<^verbatim>\<open>content_type\<close> and \<^verbatim>\<open>serializer\<close> update the predictor object; the three
  shell lines at the end are IPython \<^verbatim>\<open>!\<close> commands, which do not raise.
\<close>

definition deploy_notebook :: "'v env \<Rightarrow> 'v run" where
  "deploy_notebook env =
     stmt Session_new (session_new env) (\<lambda>session.
     stmt Get_execution_role (get_execution_role env) (\<lambda>role.
     stmt Load_boston (load_boston env) (\<lambda>boston.
     stmt Split_data (split_cell (rng_permutation env 0) (rng_permutation env 1) boston) (\<lambda>s.
     let data_dir = ''../data/boston'' in
     stmt (Path_exists data_dir) (Inr (path_exists env data_dir)) (\<lambda>present.
     stmt_if (\<not> present) (Makedirs data_dir) (makedirs env data_dir) (\<lambda>_.
     stmt Concat_columns (concat_axis1 (nan env) (Y_val s) (X_val s)) (\<lambda>val_frame.
     stmt (To_csv val_frame (path_join data_dir ''validation.csv'') False False)
       (write_file env (path_join data_dir ''validation.csv'')
          (to_csv (float_format env) val_frame False False)) (\<lambda>_.
     stmt Concat_columns (concat_axis1 (nan env) (Y_train s) (X_train s)) (\<lambda>train_frame.
     stmt (To_csv train_frame (path_join data_dir ''train.csv'') False False)
       (write_file env (path_join data_dir ''train.csv'')
          (to_csv (float_format env) train_frame False False)) (\<lambda>_.
     let prefix = ''boston-xgboost-deploy-hl'' in
     stmt (Upload_data (path_join data_dir ''validation.csv'') prefix)
       (upload_data env session (path_join data_dir ''validation.csv'') prefix) (\<lambda>val_location.
     stmt (Upload_data (path_join data_dir ''train.csv'') prefix)
       (upload_data env session (path_join data_dir ''train.csv'') prefix) (\<lambda>train_location.
     stmt (Get_image_uri (boto_region_name session) ''xgboost'')
       (get_image_uri env (boto_region_name session) ''xgboost'') (\<lambda>container.
     stmt Default_bucket (default_bucket env session) (\<lambda>bucket.
     let xgb = Estimator container role 1 ''ml.m4.xlarge''
                 (''s3://'' @ bucket @ ''/'' @ prefix @ ''/output'') session in
     stmt (Estimator_new xgb) (Inr ()) (\<lambda>_.
     let kwargs = [(''max_depth'', HInt 5), (''eta'', HNum (2 / 10)), (''gamma'', HInt 4),
                   (''min_child_weight'', HInt 6), (''subsample'', HNum (8 / 10)),
                   (''objective'', HStr ''reg:linear''), (''early_stopping_rounds'', HInt 10),
                   (''num_round'', HInt 200)];
         xgb = set_hyperparameters xgb kwargs in
     stmt (Set_hyperparameters kwargs) (Inr ()) (\<lambda>_.
     let s3_input_train = \<lparr>s3_data = train_location, input_content_type = ''csv''\<rparr>;
         s3_input_validation = \<lparr>s3_data = val_location, input_content_type = ''csv''\<rparr>;
         channels = [(''train'', s3_input_train), (''validation'', s3_input_validation)] in
     stmt (Estimator_fit xgb channels) (fit env xgb channels) (\<lambda>_.
     stmt (Estimator_deploy xgb 1 ''ml.m4.xlarge'') (deploy env xgb 1 ''ml.m4.xlarge'')
       (\<lambda>xgb_predictor.
     let xgb_predictor = xgb_predictor\<lparr>content_type := Some ''text/csv''\<rparr>;
         xgb_predictor = xgb_predictor\<lparr>serializer := Some csv_serializer\<rparr> in
     stmt (Predict xgb_predictor (df_rows (X_test s)))
       (predict env xgb_predictor (df_rows (X_test s))) (\<lambda>response.
     stmt (Decode response) (decode_utf8 response) (\<lambda>Y_pred.
     stmt (Fromstring Y_pred '','') (Inr (fromstring (strtod env) Y_pred '','')) (\<lambda>Y_pred.
     stmt (Scatter (PFrame (Y_test s)) (PArray Y_pred)) (Inr ()) (\<lambda>_.
     stmt (Plot_label ''xlabel'' ''Median Price'') (Inr ()) (\<lambda>_.
     stmt (Plot_label ''ylabel'' ''Predicted Price'') (Inr ()) (\<lambda>_.
     stmt (Plot_label ''title'' ''Median Price vs Predicted Price'') (Inr ()) (\<lambda>_.
     stmt (Delete_endpoint xgb_predictor) (delete_endpoint env xgb_predictor) (\<lambda>_.
     stmt (Shell (''rm '' @ data_dir @ ''/*'')) (Inr ()) (\<lambda>_.
     stmt (Shell (''rmdir '' @ data_dir)) (Inr ()) (\<lambda>_.
     finished))))))))))))))))))))))))))))"

text \<open>
  The hyperparameter-tuning notebook (\<^verbatim>\<open>src/unnamed/part_000\<close>), statement by statement.
  \<^verbatim>\<open>best_training_job()\<close> is called twice: once to display the name and once as the argument
  of \<^verbatim>\<open>Estimator.attach\<close>.
\<close>

definition tuning_notebook :: "'v env \<Rightarrow> 'v run" where
  "tuning_notebook env =
     stmt Session_new (session_new env) (\<lambda>session.
     stmt Get_execution_role (get_execution_role env) (\<lambda>role.
     stmt Load_boston (load_boston env) (\<lambda>boston.
     stmt Split_data (split_cell (rng_permutation env 0) (rng_permutation env 1) boston) (\<lambda>s.
     let data_dir = ''../data/boston'' in
     stmt (Path_exists data_dir) (Inr (path_exists env data_dir)) (\<lambda>present.
     stmt_if (\<not> present) (Makedirs data_dir) (makedirs env data_dir) (\<lambda>_.
     stmt (To_csv (X_test s) (path_join data_dir ''test.csv'') False False)
       (write_file env (path_join data_dir ''test.csv'')
          (to_csv (float_format env) (X_test s) False False)) (\<lambda>_.
     stmt Concat_columns (concat_axis1 (nan env) (Y_val s) (X_val s)) (\<lambda>val_frame.
     stmt (To_csv val_frame (path_join data_dir ''validation.csv'') False False)
       (write_file env (path_join data_dir ''validation.csv'')
          (to_csv (float_format env) val_frame False False)) (\<lambda>_.
     stmt Concat_columns (concat_axis1 (nan env) (Y_train s) (X_train s)) (\<lambda>train_frame.
     stmt (To_csv train_frame (path_join data_dir ''train.csv'') False False)
       (write_file env (path_join data_dir ''train.csv'')
          (to_csv (float_format env) train_frame False False)) (\<lambda>_.
     let prefix = ''boston-xgboost-tuning-HL'' in
     stmt (Upload_data (path_join data_dir ''test.csv'') prefix)
       (upload_data env session (path_join data_dir ''test.csv'') prefix) (\<lambda>test_location.
     stmt (Upload_data (path_join data_dir ''validation.csv'') prefix)
       (upload_data env session (path_join data_dir ''validation.csv'') prefix) (\<lambda>val_location.
     stmt (Upload_data (path_join data_dir ''train.csv'') prefix)
       (upload_data env session (path_join data_dir ''train.csv'') prefix) (\<lambda>train_location.
     stmt (Get_image_uri (boto_region_name session) ''xgboost'')
       (get_image_uri env (boto_region_name session) ''xgboost'') (\<lambda>container.
     stmt Default_bucket (default_bucket env session) (\<lambda>bucket.
     let xgb = Estimator container role 1 ''ml.m4.xlarge''
                 (''s3://'' @ bucket @ ''/'' @ prefix @ ''/output'') session in
     stmt (Estimator_new xgb) (Inr ()) (\<lambda>_.
     let kwargs = [(''max_depth'', HInt 5), (''eta'', HNum (2 / 10)), (''gamma'', HInt 4),
                   (''min_child_weight'', HInt 6), (''subsample'', HNum (8 / 10)),
                   (''objective'', HStr ''reg:linear''), (''early_stopping_rounds'', HInt 10),
                   (''num_round'', HInt 200)];
         xgb = set_hyperparameters xgb kwargs in
     stmt (Set_hyperparameters kwargs) (Inr ()) (\<lambda>_.
     let xgb_hyperparameter_tuner =
           \<lparr>tuned_estimator = xgb, objective_metric_name = ''validation:rmse'',
            objective_type = ''Minimize'', max_jobs = 20, max_parallel_jobs = 3,
            hyperparameter_ranges =
              [(''max_depth'', IntegerParameter 3 12),
               (''eta'', ContinuousParameter (5 / 100) (5 / 10)),
               (''min_child_weight'', IntegerParameter 2 8),
               (''subsample'', ContinuousParameter (5 / 10) (9 / 10)),
               (''gamma'', ContinuousParameter 0 10)]\<rparr> in
     stmt (Tuner_new xgb_hyperparameter_tuner) (Inr ()) (\<lambda>_.
     let s3_input_train = \<lparr>s3_data = train_location, input_content_type = ''csv''\<rparr>;
         s3_input_validation = \<lparr>s3_data = val_location, input_content_type = ''csv''\<rparr>;
         channels = [(''train'', s3_input_train), (''validation'', s3_input_validation)] in
     stmt (Tuner_fit xgb_hyperparameter_tuner channels)
       (tuner_fit env xgb_hyperparameter_tuner channels) (\<lambda>_.
     stmt (Tuner_wait xgb_hyperparameter_tuner) (tuner_wait env xgb_hyperparameter_tuner) (\<lambda>_.
     stmt (Best_training_job xgb_hyperparameter_tuner)
       (best_training_job env xgb_hyperparameter_tuner) (\<lambda>_.
     stmt (Best_training_job xgb_hyperparameter_tuner)
       (best_training_job env xgb_hyperparameter_tuner) (\<lambda>best.
     stmt (Estimator_attach best) (attach env best) (\<lambda>xgb_attached.
     stmt (Transformer_new xgb_attached 1 ''ml.m4.xlarge'')
       (transformer_new env xgb_attached 1 ''ml.m4.xlarge'') (\<lambda>xgb_transformer.
     stmt (Transform xgb_transformer test_location ''text/csv'' ''Line'')
       (transform env xgb_transformer test_location ''text/csv'' ''Line'') (\<lambda>_.
     stmt (Transformer_wait xgb_transformer) (transformer_wait env xgb_transformer) (\<lambda>_.
     stmt (Shell (''aws s3 cp --recursive '' @ transformer_output_path xgb_transformer
                    @ '' '' @ data_dir)) (Inr ()) (\<lambda>_.
     stmt (Read_csv (path_join data_dir ''test.csv.out''))
       (read_csv env (path_join data_dir ''test.csv.out'')) (\<lambda>Y_pred.
     stmt (Scatter (PFrame (Y_test s)) (PFrame Y_pred)) (Inr ()) (\<lambda>_.
     stmt (Plot_label ''xlabel'' ''Median Price'') (Inr ()) (\<lambda>_.
     stmt (Plot_label ''ylabel'' ''Predicted Price'') (Inr ()) (\<lambda>_.
     stmt (Plot_label ''title'' ''Median Price vs Predicted Price'') (Inr ()) (\<lambda>_.
     stmt (Shell (''rm '' @ data_dir @ ''/*'')) (Inr ()) (\<lambda>_.
     stmt (Shell (''rmdir '' @ data_dir)) (Inr ()) (\<lambda>_.
     finished)))))))))))))))))))))))))))))))))))"

section \<open>A concrete environment\<close>

text \<open>
  An environment in which every call succeeds, over integer-valued cells printed in decimal:
  the four-row dataset above, fixed shuffles, no data directory yet, and a service that answers
  with fixed names and two predictions. It serves to run the notebooks on a concrete input.
\<close>

function show_nat :: "nat \<Rightarrow> string" where
  "show_nat n = (if n < 10 then [char_of (48 + n)] else show_nat (n div 10) @ [char_of (48 + n mod 10)])"
  by pat_completeness auto
termination
  by (relation "measure id") auto

declare show_nat.simps [simp del]

definition show_int :: "int \<Rightarrow> string" where
  "show_int i = (if i < 0 then ''-'' @ show_nat (nat (- i)) else show_nat (nat i))"

definition is_digit :: "char \<Rightarrow> bool" where
  "is_digit c \<longleftrightarrow> 48 \<le> (of_char c :: nat) \<and> (of_char c :: nat) \<le> 57"

definition read_digits :: "string \<Rightarrow> int" where
  "read_digits ds = foldl (\<lambda>a c. 10 * a + (int (of_char c) - 48)) 0 ds"

definition read_int :: "string \<Rightarrow> (int \<times> string) option" where
  "read_int s =
     (let s1 = dropWhile is_space s;
          negative = (s1 \<noteq> [] \<and> hd s1 = CHR ''-'');
          s2 = (if negative then tl s1 else s1);
          ds = takeWhile is_digit s2
      in if ds = [] then None
         else Some ((if negative then - read_digits ds else read_digits ds),
                    dropWhile is_digit s2))"

definition show_field :: "int field \<Rightarrow> string" where
  "show_field f =
     (case f of
        FValue i \<Rightarrow> show_int i
      | FIndex n \<Rightarrow> show_nat n
      | FLabel (IntLabel i) \<Rightarrow> show_int i
      | FLabel (StrLabel s) \<Rightarrow> s
      | FBlank \<Rightarrow> [])"

definition demo_env :: "int env" where
  "demo_env =
     \<lparr>session_new = Inr \<lparr>boto_region_name = ''us-east-1''\<rparr>,
      get_execution_role = Inr ''arn:aws:iam::000000000000:role/notebook'',
      load_boston = Inr demo_boston,
      rng_permutation = (\<lambda>k. if k = 0 then [2, 0, 3, 1] else [1, 0]),
      path_exists = (\<lambda>p. False),
      makedirs = (\<lambda>p. Inr ()),
      write_file = (\<lambda>p t. Inr ()),
      float_format = show_field,
      nan = 0,
      strtod = read_int,
      upload_data = (\<lambda>sess p prefix. Inr (''s3://bucket/'' @ prefix @ ''/'' @ p)),
      get_image_uri = (\<lambda>region algorithm. Inr (region @ ''/'' @ algorithm)),
      default_bucket = (\<lambda>sess. Inr ''bucket''),
      fit = (\<lambda>est channels. Inr ()),
      deploy = (\<lambda>est n t. Inr \<lparr>endpoint = ''xgboost-endpoint'', content_type = None,
                                 serializer = None\<rparr>),
      predict = (\<lambda>p rows. Inr ''20,30''),
      delete_endpoint = (\<lambda>p. Inr ()),
      tuner_fit = (\<lambda>t channels. Inr ()),
      tuner_wait = (\<lambda>t. Inr ()),
      best_training_job = (\<lambda>t. Inr ''xgboost-job-011''),
      attach = (\<lambda>name. Inr (Estimator ''us-east-1/xgboost'' ''role'' 1 ''ml.m4.xlarge''
                                 ''s3://bucket/output'' \<lparr>boto_region_name = ''us-east-1''\<rparr>)),
      transformer_new = (\<lambda>est n t. Inr \<lparr>model_name = ''xgboost-job-011'', instance_count = n,
                                          instance_type = t,
                                          transformer_output_path = ''s3://bucket/xgboost-job-011''\<rparr>),
      transform = (\<lambda>t location ct split_type. Inr ()),
      transformer_wait = (\<lambda>t. Inr ()),
      read_csv = (\<lambda>p. Inr \<lparr>df_columns = [IntLabel 0], df_index = [0, 1],
                             df_rows = [[20], [30]]\<rparr>)\<rparr>"

section \<open>Vocabulary for the properties\<close>

text \<open>
  Names for values the notebooks build inline: the estimator after \<^verbatim>\<open>set_hyperparameters\<close>, the
  two input channels, and the tuner.
\<close>

definition the_xgb :: "string \<Rightarrow> string \<Rightarrow> string \<Rightarrow> string \<Rightarrow> session \<Rightarrow> estimator" where
  "the_xgb prefix container r bucket sess =
     set_hyperparameters
       (Estimator container r 1 ''ml.m4.xlarge''
          (''s3://'' @ bucket @ ''/'' @ prefix @ ''/output'') sess)
       [(''max_depth'', HInt 5), (''eta'', HNum (2 / 10)), (''gamma'', HInt 4),
        (''min_child_weight'', HInt 6), (''subsample'', HNum (8 / 10)),
        (''objective'', HStr ''reg:linear''), (''early_stopping_rounds'', HInt 10),
        (''num_round'', HInt 200)]"

definition the_channels :: "string \<Rightarrow> string \<Rightarrow> (string \<times> s3_input) list" where
  "the_channels train_location val_location =
     [(''train'', \<lparr>s3_data = train_location, input_content_type = ''csv''\<rparr>),
      (''validation'', \<lparr>s3_data = val_location, input_content_type = ''csv''\<rparr>)]"

definition the_tuner :: "estimator \<Rightarrow> tuner" where
  "the_tuner xgb =
     \<lparr>tuned_estimator = xgb, objective_metric_name = ''validation:rmse'',
      objective_type = ''Minimize'', max_jobs = 20, max_parallel_jobs = 3,
      hyperparameter_ranges =
        [(''max_depth'', IntegerParameter 3 12),
         (''eta'', ContinuousParameter (5 / 100) (5 / 10)),
         (''min_child_weight'', IntegerParameter 2 8),
         (''subsample'', ContinuousParameter (5 / 10) (9 / 10)),
         (''gamma'', ContinuousParameter 0 10)]\<rparr>"

text \<open>
  \<open>occur_in_order ps xs\<close>: steps satisfying \<open>ps\<close>, one after the other, can be found in \<open>xs\<close> in
  that order.
\<close>

fun occur_in_order :: "('a \<Rightarrow> bool) list \<Rightarrow> 'a list \<Rightarrow> bool" where
  "occur_in_order [] xs = True"
| "occur_in_order (p # ps) [] = False"
| "occur_in_order (p # ps) (x # xs) =
     (if p x then occur_in_order ps xs else occur_in_order (p # ps) xs)"

text \<open>Kinds of step.\<close>

definition is_to_csv :: "'v step \<Rightarrow> bool" where
  "is_to_csv c = (case c of To_csv df p h i \<Rightarrow> True | _ \<Rightarrow> False)"

definition is_upload_data :: "'v step \<Rightarrow> bool" where
  "is_upload_data c = (case c of Upload_data p k \<Rightarrow> True | _ \<Rightarrow> False)"

definition is_predict :: "'v step \<Rightarrow> bool" where
  "is_predict c = (case c of Predict p rows \<Rightarrow> True | _ \<Rightarrow> False)"

definition is_transform :: "'v step \<Rightarrow> bool" where
  "is_transform c = (case c of Transform t loc ct sp \<Rightarrow> True | _ \<Rightarrow> False)"


text \<open>
  The four operations the platform carries out: training (\<^verbatim>\<open>Estimator.fit\<close>), hyperparameter
  tuning (\<^verbatim>\<open>HyperparameterTuner.fit\<close>), hosting (\<^verbatim>\<open>Estimator.deploy\<close>) and batch inference
  (\<^verbatim>\<open>Transformer.transform\<close>).
\<close>

definition is_platform_job :: "'v step \<Rightarrow> bool" where
  "is_platform_job c =
     (case c of
        Estimator_fit e ch \<Rightarrow> True
      | Tuner_fit t ch \<Rightarrow> True
      | Estimator_deploy e n t \<Rightarrow> True
      | Transform t loc ct sp \<Rightarrow> True
      | _ \<Rightarrow> False)"

text \<open>Every step that reaches the service: through the client library or the \<^verbatim>\<open>aws\<close> tool.\<close>

definition touches_service :: "'v step \<Rightarrow> bool" where
  "touches_service c =
     (case c of
        Session_new \<Rightarrow> True
      | Get_execution_role \<Rightarrow> True
      | Upload_data p k \<Rightarrow> True
      | Get_image_uri r a \<Rightarrow> True
      | Default_bucket \<Rightarrow> True
      | Estimator_fit e ch \<Rightarrow> True
      | Estimator_deploy e n t \<Rightarrow> True
      | Predict p rows \<Rightarrow> True
      | Delete_endpoint p \<Rightarrow> True
      | Tuner_fit t ch \<Rightarrow> True
      | Tuner_wait t \<Rightarrow> True
      | Best_training_job t \<Rightarrow> True
      | Estimator_attach n \<Rightarrow> True
      | Transformer_new e n t \<Rightarrow> True
      | Transform t loc ct sp \<Rightarrow> True
      | Transformer_wait t \<Rightarrow> True
      | Shell cmd \<Rightarrow> take 10 cmd = ''aws s3 cp ''
      | _ \<Rightarrow> False)"


text \<open>
  The exception, if any, that the client library raises at one of the calls \<^verbatim>\<open>fit\<close>, \<^verbatim>\<open>wait\<close>,
  \<^verbatim>\<open>deploy\<close>, \<^verbatim>\<open>transform\<close>, \<^verbatim>\<open>predict\<close>, \<^verbatim>\<open>delete_endpoint\<close>.
\<close>

definition raised_by :: "error + 'a \<Rightarrow> error option" where
  "raised_by r = (case r of Inl e \<Rightarrow> Some e | Inr x \<Rightarrow> None)"

definition client_raises :: "'v env \<Rightarrow> 'v step \<Rightarrow> error option" where
  "client_raises env c =
     (case c of
        Estimator_fit e ch \<Rightarrow> raised_by (fit env e ch)
      | Estimator_deploy e n t \<Rightarrow> raised_by (deploy env e n t)
      | Predict p rows \<Rightarrow> raised_by (predict env p rows)
      | Delete_endpoint p \<Rightarrow> raised_by (delete_endpoint env p)
      | Tuner_fit t ch \<Rightarrow> raised_by (tuner_fit env t ch)
      | Tuner_wait t \<Rightarrow> raised_by (tuner_wait env t)
      | Transform t loc ct sp \<Rightarrow> raised_by (transform env t loc ct sp)
      | Transformer_wait t \<Rightarrow> raised_by (transformer_wait env t)
      | _ \<Rightarrow> None)"

text \<open>
  The kinds of local step the specification lists: read data, write CSV, call an API, poll for
  completion, parse a response, plot a scatter chart, delete resources. A step may be of more
  than one kind: \<^verbatim>\<open>Estimator.fit\<close> and \<^verbatim>\<open>Estimator.deploy\<close> are calls that return only when
  the job has completed, so they count as polling too; \<^verbatim>\<open>delete_endpoint\<close> is a call to the
  service that deletes a resource; \<^verbatim>\<open>read_csv\<close> reads a data file and parses the output of the
  batch job. Steps the specification does not list (splitting, the directory check, joining
  columns, building objects) have no kind.
\<close>

datatype glue =
    Read_data | Write_csv | Call_api | Poll_completion | Parse_response | Plot_chart
  | Delete_resources

definition kinds :: "'v step \<Rightarrow> glue list" where
  "kinds c =
     (case c of
        Load_boston \<Rightarrow> [Read_data]
      | To_csv df p h i \<Rightarrow> [Write_csv]
      | Session_new \<Rightarrow> [Call_api]
      | Get_execution_role \<Rightarrow> [Call_api]
      | Upload_data p k \<Rightarrow> [Call_api]
      | Get_image_uri r a \<Rightarrow> [Call_api]
      | Default_bucket \<Rightarrow> [Call_api]
      | Estimator_fit e ch \<Rightarrow> [Call_api, Poll_completion]
      | Estimator_deploy e n t \<Rightarrow> [Call_api, Poll_completion]
      | Predict p rows \<Rightarrow> [Call_api]
      | Tuner_fit t ch \<Rightarrow> [Call_api]
      | Best_training_job t \<Rightarrow> [Call_api]
      | Estimator_attach n \<Rightarrow> [Call_api]
      | Transformer_new e n t \<Rightarrow> [Call_api]
      | Transform t loc ct sp \<Rightarrow> [Call_api]
      | Tuner_wait t \<Rightarrow> [Poll_completion]
      | Transformer_wait t \<Rightarrow> [Poll_completion]
      | Decode b \<Rightarrow> [Parse_response]
      | Fromstring s sep \<Rightarrow> [Parse_response]
      | Read_csv p \<Rightarrow> [Read_data, Parse_response]
      | Scatter x y \<Rightarrow> [Plot_chart]
      | Plot_label k t \<Rightarrow> [Plot_chart]
      | Delete_endpoint p \<Rightarrow> [Call_api, Delete_resources]
      | Shell cmd \<Rightarrow> (if take 10 cmd = ''aws s3 cp '' then [Call_api] else [Delete_resources])
      | _ \<Rightarrow> [])"

definition has_kind :: "glue \<Rightarrow> 'v step \<Rightarrow> bool" where
  "has_kind g c \<longleftrightarrow> g \<in> set (kinds c)"

text \<open>The order in which the specification lists the kinds, and the place of a kind in it.\<close>

definition glue_order :: "glue list" where
  "glue_order =
     [Read_data, Write_csv, Call_api, Poll_completion, Parse_response, Plot_chart,
      Delete_resources]"

definition rank :: "glue \<Rightarrow> nat" where
  "rank g =
     (case g of
        Read_data \<Rightarrow> 0 | Write_csv \<Rightarrow> 1 | Call_api \<Rightarrow> 2 | Poll_completion \<Rightarrow> 3
      | Parse_response \<Rightarrow> 4 | Plot_chart \<Rightarrow> 5 | Delete_resources \<Rightarrow> 6)"

text \<open>
  \<open>in_phases q cs\<close>: the steps \<open>cs\<close> can be read, each step that has a kind as one of its kinds,
  so that from place \<open>q\<close> on the kinds never go back in the listed order: the seven kinds are
  seven phases, one after the other. Taking for each step the earliest kind still allowed
  decides whether such a reading exists.
\<close>

fun in_phases :: "nat \<Rightarrow> 'v step list \<Rightarrow> bool" where
  "in_phases q [] = True"
| "in_phases q (c # cs) =
     (if kinds c = [] then in_phases q cs
      else (case filter (\<lambda>r. q \<le> r) (sort (map rank (kinds c))) of
              [] \<Rightarrow> False
            | r # rs \<Rightarrow> in_phases r cs))"

text \<open>
  \<open>preceded seen P Q cs\<close>: every step of \<open>cs\<close> satisfying \<open>P\<close> has a step satisfying \<open>Q\<close>
  before it (or \<open>seen\<close> holds: one was performed before \<open>cs\<close>).
\<close>

fun preceded :: "bool \<Rightarrow> ('a \<Rightarrow> bool) \<Rightarrow> ('a \<Rightarrow> bool) \<Rightarrow> 'a list \<Rightarrow> bool" where
  "preceded seen P Q [] = True"
| "preceded seen P Q (x # xs) = ((P x \<longrightarrow> seen) \<and> preceded (seen \<or> Q x) P Q xs)"

text \<open>
  \<open>never_after seen P Q cs\<close>: no step of \<open>cs\<close> satisfying \<open>P\<close> comes after a step satisfying \<open>Q\<close>
  (nor occurs at all when \<open>seen\<close> holds: a step satisfying \<open>Q\<close> was performed before \<open>cs\<close>).
\<close>

fun never_after :: "bool \<Rightarrow> ('a \<Rightarrow> bool) \<Rightarrow> ('a \<Rightarrow> bool) \<Rightarrow> 'a list \<Rightarrow> bool" where
  "never_after seen P Q [] = True"
| "never_after seen P Q (x # xs) = ((P x \<longrightarrow> \<not> seen) \<and> never_after (seen \<or> Q x) P Q xs)"

text \<open>
  The name of the call a step records, and the calls of each notebook in the order of its
  cells; \<^verbatim>\<open>os.makedirs\<close> is there exactly when the data directory was not present.
  \<open>follows names cs\<close>: the calls of \<open>cs\<close> are, one by one, an initial segment of \<open>names\<close>.
\<close>

definition call_name :: "'v step \<Rightarrow> string" where
  "call_name c =
     (case c of
        Session_new \<Rightarrow> ''sagemaker.Session''
      | Get_execution_role \<Rightarrow> ''get_execution_role''
      | Load_boston \<Rightarrow> ''load_boston''
      | Split_data \<Rightarrow> ''train_test_split''
      | Path_exists p \<Rightarrow> ''os.path.exists''
      | Makedirs p \<Rightarrow> ''os.makedirs''
      | Concat_columns \<Rightarrow> ''pd.concat''
      | To_csv df p h i \<Rightarrow> ''to_csv''
      | Upload_data p k \<Rightarrow> ''upload_data''
      | Get_image_uri r a \<Rightarrow> ''get_image_uri''
      | Default_bucket \<Rightarrow> ''default_bucket''
      | Estimator_new e \<Rightarrow> ''Estimator''
      | Set_hyperparameters kw \<Rightarrow> ''set_hyperparameters''
      | Estimator_fit e ch \<Rightarrow> ''Estimator.fit''
      | Estimator_deploy e n t \<Rightarrow> ''Estimator.deploy''
      | Predict p rows \<Rightarrow> ''predict''
      | Decode b \<Rightarrow> ''decode''
      | Fromstring s sep \<Rightarrow> ''np.fromstring''
      | Scatter x y \<Rightarrow> ''plt.scatter''
      | Plot_label k t \<Rightarrow> ''plt.'' @ k
      | Delete_endpoint p \<Rightarrow> ''delete_endpoint''
      | Shell cmd \<Rightarrow> ''!'' @ takeWhile (\<lambda>ch. ch \<noteq> CHR '' '') cmd
      | Tuner_new t \<Rightarrow> ''HyperparameterTuner''
      | Tuner_fit t ch \<Rightarrow> ''HyperparameterTuner.fit''
      | Tuner_wait t \<Rightarrow> ''HyperparameterTuner.wait''
      | Best_training_job t \<Rightarrow> ''best_training_job''
      | Estimator_attach n \<Rightarrow> ''Estimator.attach''
      | Transformer_new e n t \<Rightarrow> ''transformer''
      | Transform t loc ct sp \<Rightarrow> ''transform''
      | Transformer_wait t \<Rightarrow> ''Transformer.wait''
      | Read_csv p \<Rightarrow> ''pd.read_csv'')"

definition deploy_calls :: "bool \<Rightarrow> string list" where
  "deploy_calls present =
     [''sagemaker.Session'', ''get_execution_role'', ''load_boston'', ''train_test_split'',
      ''os.path.exists'']
     @ (if present then [] else [''os.makedirs''])
     @ [''pd.concat'', ''to_csv'', ''pd.concat'', ''to_csv'', ''upload_data'', ''upload_data'',
        ''get_image_uri'', ''default_bucket'', ''Estimator'', ''set_hyperparameters'',
        ''Estimator.fit'', ''Estimator.deploy'', ''predict'', ''decode'', ''np.fromstring'',
        ''plt.scatter'', ''plt.xlabel'', ''plt.ylabel'', ''plt.title'', ''delete_endpoint'',
        ''!rm'', ''!rmdir'']"

definition tuning_calls :: "bool \<Rightarrow> string list" where
  "tuning_calls present =
     [''sagemaker.Session'', ''get_execution_role'', ''load_boston'', ''train_test_split'',
      ''os.path.exists'']
     @ (if present then [] else [''os.makedirs''])
     @ [''to_csv'', ''pd.concat'', ''to_csv'', ''pd.concat'', ''to_csv'', ''upload_data'',
        ''upload_data'', ''upload_data'', ''get_image_uri'', ''default_bucket'', ''Estimator'',
        ''set_hyperparameters'', ''HyperparameterTuner'', ''HyperparameterTuner.fit'',
        ''HyperparameterTuner.wait'', ''best_training_job'', ''best_training_job'',
        ''Estimator.attach'', ''transformer'', ''transform'', ''Transformer.wait'', ''!aws'',
        ''pd.read_csv'', ''plt.scatter'', ''plt.xlabel'', ''plt.ylabel'', ''plt.title'', ''!rm'',
        ''!rmdir'']"

fun follows :: "string list \<Rightarrow> 'v step list \<Rightarrow> bool" where
  "follows names [] = True"
| "follows [] (c # cs) = False"
| "follows (n # names) (c # cs) = (call_name c = n \<and> follows names cs)"

text \<open>
  The three ways in which, by the specification, local code deals with the service: it submits
  a job, polls for its completion, or retrieves an artifact. They are read generously: the
  blocking \<^verbatim>\<open>fit\<close> and \<^verbatim>\<open>deploy\<close> submit and poll, creating the transformer counts as
  submitting, and every look-up (session, role, image, bucket, best job, the attached
  estimator, the copy of the output) counts as retrieving.
\<close>

definition submits_job :: "'v step \<Rightarrow> bool" where
  "submits_job c =
     (case c of
        Estimator_fit e ch \<Rightarrow> True
      | Tuner_fit t ch \<Rightarrow> True
      | Estimator_deploy e n t \<Rightarrow> True
      | Transformer_new e n t \<Rightarrow> True
      | Transform t loc ct sp \<Rightarrow> True
      | _ \<Rightarrow> False)"

definition polls_job :: "'v step \<Rightarrow> bool" where
  "polls_job c =
     (case c of
        Estimator_fit e ch \<Rightarrow> True
      | Estimator_deploy e n t \<Rightarrow> True
      | Tuner_wait t \<Rightarrow> True
      | Transformer_wait t \<Rightarrow> True
      | _ \<Rightarrow> False)"

definition retrieves_artifact :: "'v step \<Rightarrow> bool" where
  "retrieves_artifact c =
     (case c of
        Session_new \<Rightarrow> True
      | Get_execution_role \<Rightarrow> True
      | Get_image_uri r a \<Rightarrow> True
      | Default_bucket \<Rightarrow> True
      | Best_training_job t \<Rightarrow> True
      | Estimator_attach n \<Rightarrow> True
      | Shell cmd \<Rightarrow> take 10 cmd = ''aws s3 cp ''
      | _ \<Rightarrow> False)"

text \<open>A call to the service that is none of the three.\<close>

definition other_service_call :: "'v step \<Rightarrow> bool" where
  "other_service_call c \<longleftrightarrow>
     touches_service c \<and> \<not> submits_job c \<and> \<not> polls_job c \<and> \<not> retrieves_artifact c"

text \<open>A step that does not reach the service: it runs in the notebook's own process.\<close>

definition local_step :: "'v step \<Rightarrow> bool" where
  "local_step c \<longleftrightarrow> \<not> touches_service c"

text \<open>
  The steps of a complete run of each notebook, as a function of what the environment
  answered: whether the data directory existed, the session, the role, the split, the joined
  frames, the upload locations, the container image, the bucket and, for the deploy notebook,
  the predictor, its response and the decoded text; for the tuning notebook, the best job, the
  attached estimator, the transformer and the frame read back.
\<close>

definition deploy_steps ::
  "'v env \<Rightarrow> session \<Rightarrow> string \<Rightarrow> 'v splits \<Rightarrow> 'v dataframe \<Rightarrow> 'v dataframe \<Rightarrow> string \<Rightarrow> string
     \<Rightarrow> string \<Rightarrow> string \<Rightarrow> predictor \<Rightarrow> string \<Rightarrow> string \<Rightarrow> 'v step list" where
  "deploy_steps env session r s val_frame train_frame val_location train_location container
     bucket p response decoded =
     [Session_new, Get_execution_role, Load_boston, Split_data,
      Path_exists ''../data/boston'']
     @ (if path_exists env ''../data/boston'' then [] else [Makedirs ''../data/boston''])
     @ [Concat_columns,
        To_csv val_frame ''../data/boston/validation.csv'' False False,
        Concat_columns,
        To_csv train_frame ''../data/boston/train.csv'' False False,
        Upload_data ''../data/boston/validation.csv'' ''boston-xgboost-deploy-hl'',
        Upload_data ''../data/boston/train.csv'' ''boston-xgboost-deploy-hl'',
        Get_image_uri (boto_region_name session) ''xgboost'',
        Default_bucket,
        Estimator_new (Estimator container r 1 ''ml.m4.xlarge''
           (''s3://'' @ bucket @ ''/boston-xgboost-deploy-hl/output'') session),
        Set_hyperparameters (hyperparameters
           (the_xgb ''boston-xgboost-deploy-hl'' container r bucket session)),
        Estimator_fit (the_xgb ''boston-xgboost-deploy-hl'' container r bucket session)
           (the_channels train_location val_location),
        Estimator_deploy (the_xgb ''boston-xgboost-deploy-hl'' container r bucket session)
           1 ''ml.m4.xlarge'',
        Predict (p\<lparr>content_type := Some ''text/csv'', serializer := Some csv_serializer\<rparr>)
           (df_rows (X_test s)),
        Decode response,
        Fromstring decoded '','',
        Scatter (PFrame (Y_test s)) (PArray (fromstring (strtod env) decoded '','')),
        Plot_label ''xlabel'' ''Median Price'',
        Plot_label ''ylabel'' ''Predicted Price'',
        Plot_label ''title'' ''Median Price vs Predicted Price'',
        Delete_endpoint (p\<lparr>content_type := Some ''text/csv'', serializer := Some csv_serializer\<rparr>),
        Shell ''rm ../data/boston/*'',
        Shell ''rmdir ../data/boston'']"

definition tuning_steps ::
  "'v env \<Rightarrow> session \<Rightarrow> string \<Rightarrow> 'v splits \<Rightarrow> 'v dataframe \<Rightarrow> 'v dataframe \<Rightarrow> string \<Rightarrow> string
     \<Rightarrow> string \<Rightarrow> string \<Rightarrow> string \<Rightarrow> string \<Rightarrow> estimator \<Rightarrow> transformer \<Rightarrow> 'v dataframe
     \<Rightarrow> 'v step list" where
  "tuning_steps env session r s val_frame train_frame test_location val_location
     train_location container bucket best xgb_attached xgb_transformer Y_pred =
     [Session_new, Get_execution_role, Load_boston, Split_data,
      Path_exists ''../data/boston'']
     @ (if path_exists env ''../data/boston'' then [] else [Makedirs ''../data/boston''])
     @ [To_csv (X_test s) ''../data/boston/test.csv'' False False,
        Concat_columns,
        To_csv val_frame ''../data/boston/validation.csv'' False False,
        Concat_columns,
        To_csv train_frame ''../data/boston/train.csv'' False False,
        Upload_data ''../data/boston/test.csv'' ''boston-xgboost-tuning-HL'',
        Upload_data ''../data/boston/validation.csv'' ''boston-xgboost-tuning-HL'',
        Upload_data ''../data/boston/train.csv'' ''boston-xgboost-tuning-HL'',
        Get_image_uri (boto_region_name session) ''xgboost'',
        Default_bucket,
        Estimator_new (Estimator container r 1 ''ml.m4.xlarge''
           (''s3://'' @ bucket @ ''/boston-xgboost-tuning-HL/output'') session),
        Set_hyperparameters (hyperparameters
           (the_xgb ''boston-xgboost-tuning-HL'' container r bucket session)),
        Tuner_new (the_tuner (the_xgb ''boston-xgboost-tuning-HL'' container r bucket session)),
        Tuner_fit (the_tuner (the_xgb ''boston-xgboost-tuning-HL'' container r bucket session))
           (the_channels train_location val_location),
        Tuner_wait (the_tuner (the_xgb ''boston-xgboost-tuning-HL'' container r bucket session)),
        Best_training_job
           (the_tuner (the_xgb ''boston-xgboost-tuning-HL'' container r bucket session)),
        Best_training_job
           (the_tuner (the_xgb ''boston-xgboost-tuning-HL'' container r bucket session)),
        Estimator_attach best,
        Transformer_new xgb_attached 1 ''ml.m4.xlarge'',
        Transform xgb_transformer test_location ''text/csv'' ''Line'',
        Transformer_wait xgb_transformer,
        Shell (''aws s3 cp --recursive '' @ transformer_output_path xgb_transformer
                 @ '' ../data/boston''),
        Read_csv ''../data/boston/test.csv.out'',
        Scatter (PFrame (Y_test s)) (PFrame Y_pred),
        Plot_label ''xlabel'' ''Median Price'',
        Plot_label ''ylabel'' ''Predicted Price'',
        Plot_label ''title'' ''Median Price vs Predicted Price'',
        Shell ''rm ../data/boston/*'',
        Shell ''rmdir ../data/boston'']"

text \<open>
  \<open>propagates env run\<close>: whenever one of those client calls is performed in the run and raises,
  the run ends with that very exception, the raising call is its last step, and the call was
  not made before.
\<close>

definition propagates :: "'v env \<Rightarrow> 'v run \<Rightarrow> bool" where
  "propagates env run \<longleftrightarrow>
     (\<forall>c e. c \<in> set (snd run) \<and> client_raises env c = Some e
        \<longrightarrow> fst run = Some e \<and> last (snd run) = c \<and> c \<notin> set (butlast (snd run)))"

text \<open>
  The exception, if any, raised when a \<^verbatim>\<open>to_csv\<close> step writes its file: the file system is
  handed the path and the text pandas produces for the frame. \<open>ends_where_raised\<close>: a step at
  which such an exception is raised is the last of the run, and the run ends with it.
\<close>

definition write_raises :: "'v env \<Rightarrow> 'v step \<Rightarrow> error option" where
  "write_raises env c =
     (case c of
        To_csv df p h i \<Rightarrow> raised_by (write_file env p (to_csv (float_format env) df h i))
      | _ \<Rightarrow> None)"

definition ends_where_raised :: "('v step \<Rightarrow> error option) \<Rightarrow> 'v run \<Rightarrow> bool" where
  "ends_where_raised raises run \<longleftrightarrow>
     (\<forall>c e. c \<in> set (snd run) \<and> raises c = Some e \<longrightarrow> fst run = Some e \<and> last (snd run) = c)"

text \<open>
  The layout of the file a \<^verbatim>\<open>to_csv\<close> step writes, for a dataset \<open>boston\<close>: no header and no
  index; there are rows \<open>idx\<close> of the dataset, one for each row of the frame, such that the text
  is, row after row, the line of the printed feature values of the row (for \<^verbatim>\<open>test.csv\<close>) or
  of its printed target followed by its printed feature values (for the two other files);
  read back, the text gives exactly these records, each with as many fields as there are
  features, and one more where the target leads.
\<close>

definition csv_layout :: "'v env \<Rightarrow> 'v bunch \<Rightarrow> 'v step \<Rightarrow> bool" where
  "csv_layout env boston c =
     (case c of
        To_csv df path header index \<Rightarrow>
          \<not> header \<and> \<not> index
          \<and> path \<in> {''../data/boston/test.csv'', ''../data/boston/validation.csv'',
                      ''../data/boston/train.csv''}
          \<and> (\<exists>idx. set idx \<subseteq> {0..<length (data boston)}
                \<and> length idx = length (df_rows df)
                \<and> to_csv (float_format env) df header index =
                    (if path = ''../data/boston/test.csv''
                     then concat (map (\<lambda>i. csv_row (map (\<lambda>v. float_format env (FValue v))
                                                        (data boston ! i))) idx)
                     else concat (map (\<lambda>i. csv_row (map (\<lambda>v. float_format env (FValue v))
                                                        (target boston ! i # data boston ! i))) idx))
                \<and> csv_rows (to_csv (float_format env) df header index) =
                    (if path = ''../data/boston/test.csv''
                     then map (\<lambda>i. map (\<lambda>v. float_format env (FValue v)) (data boston ! i)) idx
                     else map (\<lambda>i. map (\<lambda>v. float_format env (FValue v))
                                     (target boston ! i # data boston ! i)) idx))
          \<and> list_all
                (\<lambda>rec. length rec = length (feature_names boston)
                                      + (if path = ''../data/boston/test.csv'' then 0 else 1))
                (csv_rows (to_csv (float_format env) df header index))
      | _ \<Rightarrow> True)"

text \<open>Two environments in which one client call fails: \<^verbatim>\<open>predict\<close>, \<^verbatim>\<open>transformer.wait\<close>.\<close>

definition failing_predict_env :: "int env" where
  "failing_predict_env = demo_env\<lparr>predict := (\<lambda>p rows. Inl (LibraryError ''ModelError''))\<rparr>"

definition failing_wait_env :: "int env" where
  "failing_wait_env =
     demo_env\<lparr>transformer_wait := (\<lambda>t. Inl (LibraryError ''UnexpectedStatusException''))\<rparr>"

text \<open>An environment in which writing \<^verbatim>\<open>train.csv\<close> fails.\<close>

definition failing_write_env :: "int env" where
  "failing_write_env =
     demo_env\<lparr>write_file := (\<lambda>p t. if p = ''../data/boston/train.csv''
                                     then Inl (LibraryError ''OSError'') else Inr ())\<rparr>"

text \<open>Frames and the predictor that occur in the runs on the concrete environment.\<close>

definition demo_test_frame :: "int dataframe" where
  "demo_test_frame =
     \<lparr>df_columns = map StrLabel (feature_names demo_boston),
      df_index = [2, 0],
      df_rows = [[201, 202, 203, 204, 205, 206, 207, 208, 209, 210, 211, 212, 213],
                 [1, 2, 3, 4, 5, 6, 7, 8, 9, 10, 11, 12, 13]]\<rparr>"

definition demo_train_frame :: "int dataframe" where
  "demo_train_frame =
     \<lparr>df_columns = IntLabel 0 # map StrLabel (feature_names demo_boston),
      df_index = [3],
      df_rows = [[33, 301, 302, 303, 304, 305, 306, 307, 308, 309, 310, 311, 312, 313]]\<rparr>"

definition demo_predictor :: predictor where
  "demo_predictor =
     \<lparr>endpoint = ''xgboost-endpoint'', content_type = Some ''text/csv'',
      serializer = Some csv_serializer\<rparr>"

section \<open>Properties\<close>

subsection \<open>The split\<close>

lemma n_test_le: "n_test_of n \<le> n"
  unfolding n_test_of_def
  by (simp add: nat_le_iff ceiling_le_iff)

lemma n_test_less:
  assumes "2 \<le> n"
  shows "n_test_of n < n"
proof -
  have "(33 / 100 :: rat) * of_nat n \<le> of_int (int n) - 1"
    using assms by simp
  then have "\<lceil>(33 / 100 :: rat) * of_nat n\<rceil> < int n"
    by (simp only: ceiling_less_iff)
  then show ?thesis
    unfolding n_test_of_def by arith
qed

lemma n_train_at_least_2:
  assumes "3 \<le> n"
  shows "2 \<le> n - n_test_of n"
proof -
  have "(33 / 100 :: rat) * of_nat n \<le> of_int (int n - 2)"
    using assms by simp
  then have "\<lceil>(33 / 100 :: rat) * of_nat n\<rceil> \<le> int n - 2"
    by (simp only: ceiling_le_iff)
  then show ?thesis
    unfolding n_test_of_def using assms by arith
qed

lemma n_test_small: "n_test_of 0 = 0" "n_test_of 1 = 1" "n_test_of 2 = 1"
  by code_simp+

lemma iloc_pick:
  assumes "set ps \<subseteq> {0..<n}" and "length (df_rows df) = n" and "length (df_index df) = n"
  shows "iloc df ps = Inr (pick df ps)"
  using assms by (auto simp: iloc_def pick_def list_all_iff)

lemma perm_facts:
  assumes "mset perm = mset [0..<n]"
  shows "length perm = n" and "set perm = {0..<n}" and "distinct perm"
proof -
  show "length perm = n" using assms by (metis length_upt mset_eq_length minus_nat.diff_0)
  show "set perm = {0..<n}" using assms by (metis mset_eq_setD set_upt)
  show "distinct perm" using assms by (metis distinct_upt mset_eq_imp_distinct_iff)
qed

lemma tts_empty_train:
  assumes "length (df_rows X) = n" and "length (df_rows Y) = n" and "n_test_of n = n"
  shows "train_test_split perm X Y (33 / 100) = Inl ValueError"
  using assms by (simp add: train_test_split_def Let_def n_test_of_def)

lemma tts_Inr:
  assumes p: "mset perm = mset [0..<n]"
    and X: "length (df_rows X) = n" "length (df_index X) = n"
    and Y: "length (df_rows Y) = n" "length (df_index Y) = n"
    and k: "n_test_of n < n"
  shows "train_test_split perm X Y (33 / 100) =
           Inr (pick X (drop (n_test_of n) perm), pick X (take (n_test_of n) perm),
                pick Y (drop (n_test_of n) perm), pick Y (take (n_test_of n) perm))"
proof -
  let ?k = "n_test_of n"
  have len: "length perm = n" and st: "set perm = {0..<n}" using perm_facts[OF p] by auto
  have tr: "take (n - ?k) (drop ?k perm) = drop ?k perm" using len by simp
  have s1: "set (drop ?k perm) \<subseteq> {0..<n}" using st set_drop_subset by fastforce
  have s2: "set (take ?k perm) \<subseteq> {0..<n}" using st set_take_subset by fastforce
  have "train_test_split perm X Y (33 / 100) =
          and_then (iloc X (take (n - ?k) (drop ?k perm))) (\<lambda>X_train.
          and_then (iloc X (take ?k perm)) (\<lambda>X_test.
          and_then (iloc Y (take (n - ?k) (drop ?k perm))) (\<lambda>Y_train.
          and_then (iloc Y (take ?k perm)) (\<lambda>Y_test.
            Inr (X_train, X_test, Y_train, Y_test)))))"
    using k by (simp add: train_test_split_def Let_def n_test_of_def X Y)
  also have "\<dots> = Inr (pick X (drop ?k perm), pick X (take ?k perm),
                        pick Y (drop ?k perm), pick Y (take ?k perm))"
    unfolding tr
    by (simp add: and_then_def iloc_pick[OF s1 X] iloc_pick[OF s2 X]
        iloc_pick[OF s1 Y] iloc_pick[OF s2 Y])
  finally show ?thesis .
qed

lemma pick_simps:
  "df_index (pick df ps) = map (\<lambda>p. df_index df ! p) ps"
  "df_rows (pick df ps) = map (\<lambda>p. df_rows df ! p) ps"
  "df_columns (pick df ps) = df_columns df"
  by (simp_all add: pick_def)

lemma pick_paired:
  assumes "paired boston X Y" and "set ps \<subseteq> {0..<length (df_index X)}"
  shows "paired boston (pick X ps) (pick Y ps)"
proof -
  have "\<And>p. p \<in> set ps \<Longrightarrow> p < length (df_index X)" using assms(2) by auto
  then show ?thesis
    using assms(1) by (simp add: paired_def pick_simps)
qed

lemma mset_pick_index:
  assumes "mset ps = mset [0..<length idx]"
  shows "mset (map (\<lambda>p. idx ! p) (take k ps)) + mset (map (\<lambda>p. idx ! p) (drop k ps)) = mset idx"
proof -
  have "mset (map (\<lambda>p. idx ! p) (take k ps)) + mset (map (\<lambda>p. idx ! p) (drop k ps))
          = mset (map (\<lambda>p. idx ! p) (take k ps @ drop k ps))"
    by (simp only: map_append mset_append)
  also have "\<dots> = image_mset (\<lambda>p. idx ! p) (mset ps)" by simp
  also have "\<dots> = mset (map (\<lambda>p. idx ! p) [0..<length idx])" by (simp only: assms mset_map)
  also have "\<dots> = mset idx" by (simp add: map_nth)
  finally show ?thesis .
qed

text \<open>
  C7. Take a dataset of \<open>N\<close> rows (as many targets as feature rows, every feature row as wide
  as the list of feature names) and any two shuffles the random generator may draw. If
  \<open>N \<ge> 3\<close>, the two successive \<^verbatim>\<open>train_test_split(..., test_size=0.33)\<close> calls succeed and leave
  a test set of \<open>ceil(0.33 N)\<close> rows, a validation set of \<open>ceil(0.33 (N - ceil(0.33 N)))\<close> rows
  and a training set with the remainder; the row labels of the three sets are pairwise
  disjoint and together are exactly \<open>0, ..., N - 1\<close>, so every original row is in exactly one
  set; and in each set the feature row and the target at a position are those of the same
  original row. If \<open>N \<le> 2\<close>, one of the two calls would leave its training set empty, and the
  cell ends with the \<^verbatim>\<open>ValueError\<close> scikit-learn raises then.
\<close>

theorem split_cell_partition:
  assumes tgt: "length (target boston) = length (data boston)"
    and wid: "list_all (\<lambda>r. length r = length (feature_names boston)) (data boston)"
    and p1: "mset perm1 = mset [0..<length (data boston)]"
    and p2: "mset perm2 = mset [0..<length (data boston) - n_test_of (length (data boston))]"
  shows "(3 \<le> length (data boston) \<longrightarrow>
          (\<exists>s. split_cell perm1 perm2 boston = Inr s
             \<and> length (df_rows (X_test s)) = n_test_of (length (data boston))
             \<and> length (df_rows (X_val s)) =
                   n_test_of (length (data boston) - n_test_of (length (data boston)))
             \<and> length (df_rows (X_train s)) =
                   length (data boston) - n_test_of (length (data boston))
                     - n_test_of (length (data boston) - n_test_of (length (data boston)))
             \<and> 0 < length (df_rows (X_train s))
             \<and> distinct (df_index (X_train s) @ df_index (X_val s) @ df_index (X_test s))
             \<and> set (df_index (X_train s) @ df_index (X_val s) @ df_index (X_test s))
                   = {0..<length (data boston)}
             \<and> paired boston (X_train s) (Y_train s)
             \<and> paired boston (X_val s) (Y_val s)
             \<and> paired boston (X_test s) (Y_test s)))
       \<and> (length (data boston) < 3 \<longrightarrow> split_cell perm1 perm2 boston = Inl ValueError)"
proof (intro conjI impI)
  let ?N = "length (data boston)"
  let ?k1 = "n_test_of ?N"
  let ?M = "?N - ?k1"
  let ?k2 = "n_test_of ?M"
  let ?X0 = "\<lparr>df_columns = map StrLabel (feature_names boston), df_index = [0..<?N],
               df_rows = data boston\<rparr>"
  let ?Y0 = "\<lparr>df_columns = [IntLabel 0], df_index = [0..<?N],
               df_rows = map (\<lambda>t. [t]) (target boston)\<rparr>"
  let ?X1 = "pick ?X0 (drop ?k1 perm1)" and ?Y1 = "pick ?Y0 (drop ?k1 perm1)"
  let ?s = "\<lparr>X_train = pick ?X1 (drop ?k2 perm2), X_val = pick ?X1 (take ?k2 perm2),
              X_test = pick ?X0 (take ?k1 perm1),
              Y_train = pick ?Y1 (drop ?k2 perm2), Y_val = pick ?Y1 (take ?k2 perm2),
              Y_test = pick ?Y0 (take ?k1 perm1)\<rparr>"
  have len1: "length perm1 = ?N" and set1: "set perm1 = {0..<?N}"
    using perm_facts[OF p1] by auto
  have len2: "length perm2 = ?M" and set2: "set perm2 = {0..<?M}"
    using perm_facts[OF p2] by auto
  have dfX: "DataFrame (data boston) (map StrLabel (feature_names boston)) = Inr ?X0"
    using wid by (simp add: DataFrame_def)
  have dfY: "DataFrame (map (\<lambda>t. [t]) (target boston)) [IntLabel 0] = Inr ?Y0"
    using tgt by (simp add: DataFrame_def list_all_iff)
  have lenX1: "length (df_rows ?X1) = ?M" "length (df_index ?X1) = ?M"
    and lenY1: "length (df_rows ?Y1) = ?M" "length (df_index ?Y1) = ?M"
    by (simp_all add: pick_simps len1)
  {
    assume big: "3 \<le> ?N"
    have k1: "?k1 < ?N" by (rule n_test_less) (use big in simp)
    have M2: "2 \<le> ?M" by (rule n_train_at_least_2[OF big])
    have k2: "?k2 < ?M" by (rule n_test_less[OF M2])
    have split1: "train_test_split perm1 ?X0 ?Y0 (33 / 100) =
                    Inr (?X1, pick ?X0 (take ?k1 perm1), ?Y1, pick ?Y0 (take ?k1 perm1))"
      by (rule tts_Inr[OF p1]) (simp_all add: tgt k1)
    have split2: "train_test_split perm2 ?X1 ?Y1 (33 / 100) =
                    Inr (X_train ?s, X_val ?s, Y_train ?s, Y_val ?s)"
      using tts_Inr[OF p2 lenX1 lenY1 k2] by simp
    have run: "split_cell perm1 perm2 boston = Inr ?s"
      by (simp add: split_cell_def and_then_def dfX dfY split1 split2)
    have sub_te: "set (take ?k1 perm1) \<subseteq> {0..<?N}" and sub_tr: "set (drop ?k1 perm1) \<subseteq> {0..<?N}"
      using set1 set_take_subset set_drop_subset by fastforce+
    have sub_va: "set (take ?k2 perm2) \<subseteq> {0..<?M}" and sub_tr2: "set (drop ?k2 perm2) \<subseteq> {0..<?M}"
      using set2 set_take_subset set_drop_subset by fastforce+
    have rowsX: "data boston = map (\<lambda>i. data boston ! i) [0..<?N]"
      by (simp only: map_nth)
    have rowsY: "map (\<lambda>t. [t]) (target boston) = map (\<lambda>i. [target boston ! i]) [0..<?N]"
      using tgt by (intro nth_equalityI) simp_all
    have pair0: "paired boston ?X0 ?Y0"
      using rowsX rowsY by (simp add: paired_def)
    have pair1: "paired boston ?X1 ?Y1"
      by (rule pick_paired[OF pair0]) (use sub_tr in simp)
    have pair_te: "paired boston (X_test ?s) (Y_test ?s)"
      using pick_paired[OF pair0, of "take ?k1 perm1"] sub_te by simp
    have pair_va: "paired boston (X_val ?s) (Y_val ?s)"
      using pick_paired[OF pair1, of "take ?k2 perm2"] sub_va lenX1 by simp
    have pair_tr: "paired boston (X_train ?s) (Y_train ?s)"
      using pick_paired[OF pair1, of "drop ?k2 perm2"] sub_tr2 lenX1 by simp
    have m2: "mset (df_index (X_val ?s)) + mset (df_index (X_train ?s)) = mset (df_index ?X1)"
      using mset_pick_index[of perm2 "df_index ?X1" ?k2] p2 lenX1 by (simp add: pick_simps)
    have m1: "mset (df_index (X_test ?s)) + mset (df_index ?X1) = mset [0..<?N]"
      using mset_pick_index[of perm1 "[0..<?N]" ?k1] p1 by (simp add: pick_simps)
    have m: "mset (df_index (X_train ?s) @ df_index (X_val ?s) @ df_index (X_test ?s))
               = mset [0..<?N]"
      using m1 m2 by (simp add: ac_simps)
    have dist: "distinct (df_index (X_train ?s) @ df_index (X_val ?s) @ df_index (X_test ?s))"
      using m by (metis distinct_upt mset_eq_imp_distinct_iff)
    have st: "set (df_index (X_train ?s) @ df_index (X_val ?s) @ df_index (X_test ?s))
                = {0..<?N}"
      using m by (metis mset_eq_setD set_upt)
    have sizes: "length (df_rows (X_test ?s)) = ?k1" "length (df_rows (X_val ?s)) = ?k2"
      "length (df_rows (X_train ?s)) = ?N - ?k1 - ?k2"
      using k1 k2 by (simp_all add: pick_simps len1 len2)
    have nonempty: "0 < length (df_rows (X_train ?s))"
      using sizes(3) k2 by simp
    show "\<exists>s. split_cell perm1 perm2 boston = Inr s
             \<and> length (df_rows (X_test s)) = ?k1
             \<and> length (df_rows (X_val s)) = ?k2
             \<and> length (df_rows (X_train s)) = ?N - ?k1 - ?k2
             \<and> 0 < length (df_rows (X_train s))
             \<and> distinct (df_index (X_train s) @ df_index (X_val s) @ df_index (X_test s))
             \<and> set (df_index (X_train s) @ df_index (X_val s) @ df_index (X_test s))
                   = {0..<?N}
             \<and> paired boston (X_train s) (Y_train s)
             \<and> paired boston (X_val s) (Y_val s)
             \<and> paired boston (X_test s) (Y_test s)"
      using run sizes nonempty dist st pair_tr pair_va pair_te by blast
  }
  {
    assume small: "?N < 3"
    show "split_cell perm1 perm2 boston = Inl ValueError"
    proof (cases "?N = 2")
      case True
      have k1: "?k1 = 1" using True by (simp add: n_test_small)
      then have M: "?M = 1" using True by simp
      have split1: "train_test_split perm1 ?X0 ?Y0 (33 / 100) =
                      Inr (?X1, pick ?X0 (take ?k1 perm1), ?Y1, pick ?Y0 (take ?k1 perm1))"
        by (rule tts_Inr[OF p1]) (use True k1 in \<open>simp_all add: tgt\<close>)
      have "n_test_of ?M = ?M"
        unfolding M by (rule n_test_small)
      with lenX1(1) lenY1(1)
      have split2: "train_test_split perm2 ?X1 ?Y1 (33 / 100) = Inl ValueError"
        by (rule tts_empty_train)
      show ?thesis
        by (simp add: split_cell_def and_then_def dfX dfY split1 split2)
    next
      case False
      with small have N: "?N = 0 \<or> ?N = 1" by arith
      then have "n_test_of ?N = ?N" by (elim disjE) (simp_all only: n_test_small)
      then have split1: "train_test_split perm1 ?X0 ?Y0 (33 / 100) = Inl ValueError"
        by (intro tts_empty_train[of _ ?N]) (simp_all add: tgt)
      show ?thesis
        by (simp add: split_cell_def and_then_def dfX dfY split1)
    qed
  }
qed

theorem split_cell_partition_witness:
  "3 \<le> length (data demo_boston)
   \<and> (\<exists>s. split_cell [2, 0, 3, 1] [1, 0] demo_boston = Inr s
       \<and> length (df_rows (X_test s)) = 2
       \<and> length (df_rows (X_val s)) = 1
       \<and> length (df_rows (X_train s)) = 1
       \<and> 0 < length (df_rows (X_train s))
       \<and> distinct (df_index (X_train s) @ df_index (X_val s) @ df_index (X_test s))
       \<and> set (df_index (X_train s) @ df_index (X_val s) @ df_index (X_test s)) = {0..<4}
       \<and> paired demo_boston (X_train s) (Y_train s)
       \<and> paired demo_boston (X_val s) (Y_val s)
       \<and> paired demo_boston (X_test s) (Y_test s))"
proof -
  have n: "length (data demo_boston) = 4" by code_simp
  have k: "n_test_of 4 = 2" "n_test_of 2 = 1" by code_simp+
  have h1: "length (target demo_boston) = length (data demo_boston)"
    by code_simp
  have h2: "list_all (\<lambda>r. length r = length (feature_names demo_boston)) (data demo_boston)"
    by code_simp
  have h3: "mset [2, 0, 3, 1] = mset [0..<length (data demo_boston)]"
    by code_simp
  have h4: "mset [1, 0] =
              mset [0..<length (data demo_boston) - n_test_of (length (data demo_boston))]"
    by code_simp
  show ?thesis
    using split_cell_partition[OF h1 h2 h3 h4] by (simp add: n k)
qed

text \<open>
  The claim as stated, for every \<open>N\<close>, on the two-row dataset: its rows are well-formed and the
  shuffles are permutations, yet the cell does not return a split: the second call is left
  with one row, all of which would go to validation.
\<close>

theorem split_cell_small_counterexample:
  "length (data tiny_boston) = 2
   \<and> length (target tiny_boston) = length (data tiny_boston)
   \<and> list_all (\<lambda>r. length r = length (feature_names tiny_boston)) (data tiny_boston)
   \<and> split_cell [1, 0] [0] tiny_boston = Inl ValueError"
  by code_simp

subsection \<open>Complete runs\<close>

text \<open>
  A run is complete when no statement raised. Such a run performs every statement of the
  notebook; the lemmas below spell out its steps.
\<close>

lemma complete_run:
  assumes "fst run = None"
  obtains tr where "run = (None, tr)"
  using assms by (cases run) auto

lemma stmt_Inl: "stmt c (Inl e) k = (Some e, [c])"
  by (simp add: stmt_def)

lemma stmt_complete:
  "stmt c r k = (None, tr) \<longleftrightarrow> (\<exists>x tr'. r = Inr x \<and> k x = (None, tr') \<and> tr = c # tr')"
  by (cases r) (auto simp: stmt_def split: prod.splits)

lemma stmt_if_complete:
  "stmt_if b c r k = (None, tr) \<longleftrightarrow>
     (if b then \<exists>tr'. r = Inr () \<and> k () = (None, tr') \<and> tr = c # tr' else k () = (None, tr))"
  by (simp add: stmt_if_def stmt_complete)

lemma finished_complete: "finished = (None, tr) \<longleftrightarrow> tr = []"
  by (auto simp: finished_def)

lemma path_join_data_dir [simp]:
  "path_join ''../data/boston'' ''validation.csv'' = ''../data/boston/validation.csv''"
  "path_join ''../data/boston'' ''train.csv'' = ''../data/boston/train.csv''"
  "path_join ''../data/boston'' ''test.csv'' = ''../data/boston/test.csv''"
  "path_join ''../data/boston'' ''test.csv.out'' = ''../data/boston/test.csv.out''"
  by (simp_all add: path_join_def)

lemma deploy_complete:
  assumes "deploy_notebook env = (None, tr)"
  shows "\<exists>session r boston s val_frame train_frame val_location train_location container
    bucket p response decoded.
      session_new env = Inr session
    \<and> get_execution_role env = Inr r
    \<and> load_boston env = Inr boston
    \<and> split_cell (rng_permutation env 0) (rng_permutation env 1) boston = Inr s
    \<and> concat_axis1 (nan env) (Y_val s) (X_val s) = Inr val_frame
    \<and> concat_axis1 (nan env) (Y_train s) (X_train s) = Inr train_frame
    \<and> upload_data env session ''../data/boston/validation.csv'' ''boston-xgboost-deploy-hl''
           = Inr val_location
    \<and> upload_data env session ''../data/boston/train.csv'' ''boston-xgboost-deploy-hl''
           = Inr train_location
    \<and> get_image_uri env (boto_region_name session) ''xgboost'' = Inr container
    \<and> default_bucket env session = Inr bucket
    \<and> deploy env (the_xgb ''boston-xgboost-deploy-hl'' container r bucket session) 1 ''ml.m4.xlarge''
           = Inr p
    \<and> predict env (p\<lparr>content_type := Some ''text/csv'', serializer := Some csv_serializer\<rparr>)
           (df_rows (X_test s)) = Inr response
    \<and> decode_utf8 response = Inr decoded
    \<and> tr = deploy_steps env session r s val_frame train_frame val_location train_location
             container bucket p response decoded"
proof (cases "path_exists env ''../data/boston''")
  case True
  with assms show ?thesis
    unfolding deploy_notebook_def
    by (clarsimp simp: stmt_complete stmt_if_complete finished_complete Let_def
      the_xgb_def the_channels_def set_hyperparameters_def Estimator_def deploy_steps_def)
next
  case False
  with assms show ?thesis
    unfolding deploy_notebook_def
    by (clarsimp simp: stmt_complete stmt_if_complete finished_complete Let_def
      the_xgb_def the_channels_def set_hyperparameters_def Estimator_def deploy_steps_def)
qed

lemma tuning_complete:
  assumes "tuning_notebook env = (None, tr)"
  shows "\<exists>session r boston s val_frame train_frame test_location val_location train_location
    container bucket best xgb_attached xgb_transformer Y_pred.
      session_new env = Inr session
    \<and> get_execution_role env = Inr r
    \<and> load_boston env = Inr boston
    \<and> split_cell (rng_permutation env 0) (rng_permutation env 1) boston = Inr s
    \<and> concat_axis1 (nan env) (Y_val s) (X_val s) = Inr val_frame
    \<and> concat_axis1 (nan env) (Y_train s) (X_train s) = Inr train_frame
    \<and> upload_data env session ''../data/boston/test.csv'' ''boston-xgboost-tuning-HL''
           = Inr test_location
    \<and> upload_data env session ''../data/boston/validation.csv'' ''boston-xgboost-tuning-HL''
           = Inr val_location
    \<and> upload_data env session ''../data/boston/train.csv'' ''boston-xgboost-tuning-HL''
           = Inr train_location
    \<and> get_image_uri env (boto_region_name session) ''xgboost'' = Inr container
    \<and> default_bucket env session = Inr bucket
    \<and> best_training_job env
          (the_tuner (the_xgb ''boston-xgboost-tuning-HL'' container r bucket session)) = Inr best
    \<and> attach env best = Inr xgb_attached
    \<and> transformer_new env xgb_attached 1 ''ml.m4.xlarge'' = Inr xgb_transformer
    \<and> read_csv env ''../data/boston/test.csv.out'' = Inr Y_pred
    \<and> tr = tuning_steps env session r s val_frame train_frame test_location val_location
             train_location container bucket best xgb_attached xgb_transformer Y_pred"
proof (cases "path_exists env ''../data/boston''")
  case True
  with assms show ?thesis
    unfolding tuning_notebook_def
    by (clarsimp simp: stmt_complete stmt_if_complete finished_complete Let_def
      the_xgb_def the_channels_def the_tuner_def set_hyperparameters_def Estimator_def
      tuning_steps_def)
next
  case False
  with assms show ?thesis
    unfolding tuning_notebook_def
    by (clarsimp simp: stmt_complete stmt_if_complete finished_complete Let_def
      the_xgb_def the_channels_def the_tuner_def set_hyperparameters_def Estimator_def
      tuning_steps_def)
qed

lemma the_xgb_image [simp]: "image_name (the_xgb prefix container r bucket sess) = container"
  by (simp add: the_xgb_def set_hyperparameters_def Estimator_def)

lemma the_tuner_estimator [simp]: "tuned_estimator (the_tuner xgb) = xgb"
  by (simp add: the_tuner_def)

subsection \<open>Order of the steps\<close>


lemma demo_deploy_complete: "fst (deploy_notebook demo_env) = None"
  by code_simp

lemma demo_tuning_complete: "fst (tuning_notebook demo_env) = None"
  by code_simp


subsection \<open>Delegation to the platform\<close>

text \<open>
  C2, as the code has it. In a complete run each of the platform's operations is requested by
  exactly one call: the deploy notebook calls \<^verbatim>\<open>Estimator.fit\<close> once and \<^verbatim>\<open>Estimator.deploy\<close>
  once, on the same estimator, and the tuning notebook calls \<^verbatim>\<open>HyperparameterTuner.fit\<close> once
  and \<^verbatim>\<open>Transformer.transform\<close> once. The second list of each part is every step that reaches
  the service at all. The third list is those among them that neither submit a job, nor poll,
  nor retrieve an artifact: the uploads of the CSV files and, in the deploy notebook, the
  prediction request and the deletion of the endpoint. The fourth list names every other
  step, all of which run locally: loading and splitting the data, the directory check,
  joining columns, writing CSV, building the estimator, its hyperparameters and the tuner,
  decoding and parsing the response or reading the output file, plotting, removing the local
  files. None of them trains, searches or serves: the predictor used is the one
  \<^verbatim>\<open>deploy\<close> returned, the best job, the estimator and the transformer are those the client
  returned, and the predictions plotted are the parsed response of the endpoint (deploy
  notebook) or the output file of the batch job (tuning notebook).
\<close>

theorem platform_jobs_are_single_calls:
  fixes env :: "'v env"
  shows "(fst (deploy_notebook env) = None \<longrightarrow>
      (\<exists>session est ch p0 p (s :: 'v splits) response decoded.
         session_new env = Inr session
       \<and> filter is_platform_job (snd (deploy_notebook env)) =
           [Estimator_fit est ch, Estimator_deploy est 1 ''ml.m4.xlarge'']
       \<and> filter touches_service (snd (deploy_notebook env)) =
           [Session_new, Get_execution_role,
            Upload_data ''../data/boston/validation.csv'' ''boston-xgboost-deploy-hl'',
            Upload_data ''../data/boston/train.csv'' ''boston-xgboost-deploy-hl'',
            Get_image_uri (boto_region_name session) ''xgboost'', Default_bucket,
            Estimator_fit est ch, Estimator_deploy est 1 ''ml.m4.xlarge'',
            Predict p (df_rows (X_test s)), Delete_endpoint p]
       \<and> filter other_service_call (snd (deploy_notebook env)) =
           [Upload_data ''../data/boston/validation.csv'' ''boston-xgboost-deploy-hl'',
            Upload_data ''../data/boston/train.csv'' ''boston-xgboost-deploy-hl'',
            Predict p (df_rows (X_test s)), Delete_endpoint p]
       \<and> map call_name (filter local_step (snd (deploy_notebook env))) =
           [''load_boston'', ''train_test_split'', ''os.path.exists'']
           @ (if path_exists env ''../data/boston'' then [] else [''os.makedirs''])
           @ [''pd.concat'', ''to_csv'', ''pd.concat'', ''to_csv'', ''Estimator'',
              ''set_hyperparameters'', ''decode'', ''np.fromstring'', ''plt.scatter'',
              ''plt.xlabel'', ''plt.ylabel'', ''plt.title'', ''!rm'', ''!rmdir'']
       \<and> deploy env est 1 ''ml.m4.xlarge'' = Inr p0
       \<and> p = p0\<lparr>content_type := Some ''text/csv'', serializer := Some csv_serializer\<rparr>
       \<and> predict env p (df_rows (X_test s)) = Inr response
       \<and> decode_utf8 response = Inr decoded
       \<and> Scatter (PFrame (Y_test s)) (PArray (fromstring (strtod env) decoded '',''))
            \<in> set (snd (deploy_notebook env))))
 \<and> (fst (tuning_notebook env) = None \<longrightarrow>
      (\<exists>session tn ch best est (tf :: transformer) loc (s :: 'v splits) Y_pred.
         session_new env = Inr session
       \<and> filter is_platform_job (snd (tuning_notebook env)) =
           [Tuner_fit tn ch, Transform tf loc ''text/csv'' ''Line'']
       \<and> filter touches_service (snd (tuning_notebook env)) =
           [Session_new, Get_execution_role,
            Upload_data ''../data/boston/test.csv'' ''boston-xgboost-tuning-HL'',
            Upload_data ''../data/boston/validation.csv'' ''boston-xgboost-tuning-HL'',
            Upload_data ''../data/boston/train.csv'' ''boston-xgboost-tuning-HL'',
            Get_image_uri (boto_region_name session) ''xgboost'', Default_bucket,
            Tuner_fit tn ch, Tuner_wait tn, Best_training_job tn, Best_training_job tn,
            Estimator_attach best, Transformer_new est 1 ''ml.m4.xlarge'',
            Transform tf loc ''text/csv'' ''Line'', Transformer_wait tf,
            Shell (''aws s3 cp --recursive '' @ transformer_output_path tf
                     @ '' ../data/boston'')]
       \<and> filter other_service_call (snd (tuning_notebook env)) =
           [Upload_data ''../data/boston/test.csv'' ''boston-xgboost-tuning-HL'',
            Upload_data ''../data/boston/validation.csv'' ''boston-xgboost-tuning-HL'',
            Upload_data ''../data/boston/train.csv'' ''boston-xgboost-tuning-HL'']
       \<and> map call_name (filter local_step (snd (tuning_notebook env))) =
           [''load_boston'', ''train_test_split'', ''os.path.exists'']
           @ (if path_exists env ''../data/boston'' then [] else [''os.makedirs''])
           @ [''to_csv'', ''pd.concat'', ''to_csv'', ''pd.concat'', ''to_csv'', ''Estimator'',
              ''set_hyperparameters'', ''HyperparameterTuner'', ''pd.read_csv'',
              ''plt.scatter'', ''plt.xlabel'', ''plt.ylabel'', ''plt.title'', ''!rm'', ''!rmdir'']
       \<and> best_training_job env tn = Inr best
       \<and> attach env best = Inr est
       \<and> transformer_new env est 1 ''ml.m4.xlarge'' = Inr tf
       \<and> read_csv env ''../data/boston/test.csv.out'' = Inr Y_pred
       \<and> Scatter (PFrame (Y_test s)) (PFrame Y_pred) \<in> set (snd (tuning_notebook env))))"
proof (intro conjI impI)
  assume "fst (deploy_notebook env) = None"
  then obtain tr where run: "deploy_notebook env = (None, tr)"
    by (rule complete_run)
  from deploy_complete[OF run]
  obtain session r boston s val_frame train_frame val_location train_location container
    bucket p0 response decoded
    where sess: "session_new env = Inr session"
    and dep: "deploy env (the_xgb ''boston-xgboost-deploy-hl'' container r bucket session) 1
                ''ml.m4.xlarge'' = Inr p0"
    and pred: "predict env (p0\<lparr>content_type := Some ''text/csv'',
                 serializer := Some csv_serializer\<rparr>) (df_rows (X_test s)) = Inr response"
    and dec: "decode_utf8 response = Inr decoded"
    and tr: "tr = deploy_steps env session r s val_frame train_frame val_location
                    train_location container bucket p0 response decoded"
    by blast
  let ?est = "the_xgb ''boston-xgboost-deploy-hl'' container r bucket session"
  let ?ch = "the_channels train_location val_location"
  let ?p = "p0\<lparr>content_type := Some ''text/csv'', serializer := Some csv_serializer\<rparr>"
  have jobs: "filter is_platform_job tr =
      [Estimator_fit ?est ?ch, Estimator_deploy ?est 1 ''ml.m4.xlarge'']"
    unfolding tr deploy_steps_def by (simp add: is_platform_job_def)
  have calls: "filter touches_service tr =
      [Session_new, Get_execution_role,
       Upload_data ''../data/boston/validation.csv'' ''boston-xgboost-deploy-hl'',
       Upload_data ''../data/boston/train.csv'' ''boston-xgboost-deploy-hl'',
       Get_image_uri (boto_region_name session) ''xgboost'', Default_bucket,
       Estimator_fit ?est ?ch, Estimator_deploy ?est 1 ''ml.m4.xlarge'',
       Predict ?p (df_rows (X_test s)), Delete_endpoint ?p]"
    unfolding tr deploy_steps_def by (simp add: touches_service_def)
  have others: "filter other_service_call tr =
      [Upload_data ''../data/boston/validation.csv'' ''boston-xgboost-deploy-hl'',
       Upload_data ''../data/boston/train.csv'' ''boston-xgboost-deploy-hl'',
       Predict ?p (df_rows (X_test s)), Delete_endpoint ?p]"
    unfolding tr deploy_steps_def
    by (simp add: other_service_call_def touches_service_def submits_job_def polls_job_def
        retrieves_artifact_def)
  have locals: "map call_name (filter local_step tr) =
      [''load_boston'', ''train_test_split'', ''os.path.exists'']
      @ (if path_exists env ''../data/boston'' then [] else [''os.makedirs''])
      @ [''pd.concat'', ''to_csv'', ''pd.concat'', ''to_csv'', ''Estimator'',
         ''set_hyperparameters'', ''decode'', ''np.fromstring'', ''plt.scatter'',
         ''plt.xlabel'', ''plt.ylabel'', ''plt.title'', ''!rm'', ''!rmdir'']"
    unfolding tr deploy_steps_def
    by (simp add: local_step_def touches_service_def call_name_def)
  have plot: "Scatter (PFrame (Y_test s)) (PArray (fromstring (strtod env) decoded '','')) \<in> set tr"
    unfolding tr deploy_steps_def by simp
  show "\<exists>session est ch p0 p (s :: 'v splits) response decoded.
         session_new env = Inr session
       \<and> filter is_platform_job (snd (deploy_notebook env)) =
           [Estimator_fit est ch, Estimator_deploy est 1 ''ml.m4.xlarge'']
       \<and> filter touches_service (snd (deploy_notebook env)) =
           [Session_new, Get_execution_role,
            Upload_data ''../data/boston/validation.csv'' ''boston-xgboost-deploy-hl'',
            Upload_data ''../data/boston/train.csv'' ''boston-xgboost-deploy-hl'',
            Get_image_uri (boto_region_name session) ''xgboost'', Default_bucket,
            Estimator_fit est ch, Estimator_deploy est 1 ''ml.m4.xlarge'',
            Predict p (df_rows (X_test s)), Delete_endpoint p]
       \<and> filter other_service_call (snd (deploy_notebook env)) =
           [Upload_data ''../data/boston/validation.csv'' ''boston-xgboost-deploy-hl'',
            Upload_data ''../data/boston/train.csv'' ''boston-xgboost-deploy-hl'',
            Predict p (df_rows (X_test s)), Delete_endpoint p]
       \<and> map call_name (filter local_step (snd (deploy_notebook env))) =
           [''load_boston'', ''train_test_split'', ''os.path.exists'']
           @ (if path_exists env ''../data/boston'' then [] else [''os.makedirs''])
           @ [''pd.concat'', ''to_csv'', ''pd.concat'', ''to_csv'', ''Estimator'',
              ''set_hyperparameters'', ''decode'', ''np.fromstring'', ''plt.scatter'',
              ''plt.xlabel'', ''plt.ylabel'', ''plt.title'', ''!rm'', ''!rmdir'']
       \<and> deploy env est 1 ''ml.m4.xlarge'' = Inr p0
       \<and> p = p0\<lparr>content_type := Some ''text/csv'', serializer := Some csv_serializer\<rparr>
       \<and> predict env p (df_rows (X_test s)) = Inr response
       \<and> decode_utf8 response = Inr decoded
       \<and> Scatter (PFrame (Y_test s)) (PArray (fromstring (strtod env) decoded '',''))
            \<in> set (snd (deploy_notebook env))"
    unfolding run snd_conv
    using sess jobs calls others locals dep pred dec plot
    by (intro exI conjI) (assumption | rule refl)+
next
  assume "fst (tuning_notebook env) = None"
  then obtain tr where run: "tuning_notebook env = (None, tr)"
    by (rule complete_run)
  from tuning_complete[OF run]
  obtain session r boston s val_frame train_frame test_location val_location train_location
    container bucket best xgb_attached xgb_transformer Y_pred
    where sess: "session_new env = Inr session"
    and best: "best_training_job env
          (the_tuner (the_xgb ''boston-xgboost-tuning-HL'' container r bucket session)) = Inr best"
    and att: "attach env best = Inr xgb_attached"
    and tfn: "transformer_new env xgb_attached 1 ''ml.m4.xlarge'' = Inr xgb_transformer"
    and rd: "read_csv env ''../data/boston/test.csv.out'' = Inr Y_pred"
    and tr: "tr = tuning_steps env session r s val_frame train_frame test_location val_location
                    train_location container bucket best xgb_attached xgb_transformer Y_pred"
    by blast
  let ?tn = "the_tuner (the_xgb ''boston-xgboost-tuning-HL'' container r bucket session)"
  let ?ch = "the_channels train_location val_location"
  have jobs: "filter is_platform_job tr =
      [Tuner_fit ?tn ?ch, Transform xgb_transformer test_location ''text/csv'' ''Line'']"
    unfolding tr tuning_steps_def by (simp add: is_platform_job_def)
  have calls: "filter touches_service tr =
      [Session_new, Get_execution_role,
       Upload_data ''../data/boston/test.csv'' ''boston-xgboost-tuning-HL'',
       Upload_data ''../data/boston/validation.csv'' ''boston-xgboost-tuning-HL'',
       Upload_data ''../data/boston/train.csv'' ''boston-xgboost-tuning-HL'',
       Get_image_uri (boto_region_name session) ''xgboost'', Default_bucket,
       Tuner_fit ?tn ?ch, Tuner_wait ?tn, Best_training_job ?tn, Best_training_job ?tn,
       Estimator_attach best, Transformer_new xgb_attached 1 ''ml.m4.xlarge'',
       Transform xgb_transformer test_location ''text/csv'' ''Line'',
       Transformer_wait xgb_transformer,
       Shell (''aws s3 cp --recursive '' @ transformer_output_path xgb_transformer
                @ '' ../data/boston'')]"
    unfolding tr tuning_steps_def by (simp add: touches_service_def)
  have others: "filter other_service_call tr =
      [Upload_data ''../data/boston/test.csv'' ''boston-xgboost-tuning-HL'',
       Upload_data ''../data/boston/validation.csv'' ''boston-xgboost-tuning-HL'',
       Upload_data ''../data/boston/train.csv'' ''boston-xgboost-tuning-HL'']"
    unfolding tr tuning_steps_def
    by (simp add: other_service_call_def touches_service_def submits_job_def polls_job_def
        retrieves_artifact_def)
  have locals: "map call_name (filter local_step tr) =
      [''load_boston'', ''train_test_split'', ''os.path.exists'']
      @ (if path_exists env ''../data/boston'' then [] else [''os.makedirs''])
      @ [''to_csv'', ''pd.concat'', ''to_csv'', ''pd.concat'', ''to_csv'', ''Estimator'',
         ''set_hyperparameters'', ''HyperparameterTuner'', ''pd.read_csv'',
         ''plt.scatter'', ''plt.xlabel'', ''plt.ylabel'', ''plt.title'', ''!rm'', ''!rmdir'']"
    unfolding tr tuning_steps_def
    by (simp add: local_step_def touches_service_def call_name_def)
  have plot: "Scatter (PFrame (Y_test s)) (PFrame Y_pred) \<in> set tr"
    unfolding tr tuning_steps_def by simp
  show "\<exists>session tn ch best est (tf :: transformer) loc (s :: 'v splits) Y_pred.
         session_new env = Inr session
       \<and> filter is_platform_job (snd (tuning_notebook env)) =
           [Tuner_fit tn ch, Transform tf loc ''text/csv'' ''Line'']
       \<and> filter touches_service (snd (tuning_notebook env)) =
           [Session_new, Get_execution_role,
            Upload_data ''../data/boston/test.csv'' ''boston-xgboost-tuning-HL'',
            Upload_data ''../data/boston/validation.csv'' ''boston-xgboost-tuning-HL'',
            Upload_data ''../data/boston/train.csv'' ''boston-xgboost-tuning-HL'',
            Get_image_uri (boto_region_name session) ''xgboost'', Default_bucket,
            Tuner_fit tn ch, Tuner_wait tn, Best_training_job tn, Best_training_job tn,
            Estimator_attach best, Transformer_new est 1 ''ml.m4.xlarge'',
            Transform tf loc ''text/csv'' ''Line'', Transformer_wait tf,
            Shell (''aws s3 cp --recursive '' @ transformer_output_path tf
                     @ '' ../data/boston'')]
       \<and> filter other_service_call (snd (tuning_notebook env)) =
           [Upload_data ''../data/boston/test.csv'' ''boston-xgboost-tuning-HL'',
            Upload_data ''../data/boston/validation.csv'' ''boston-xgboost-tuning-HL'',
            Upload_data ''../data/boston/train.csv'' ''boston-xgboost-tuning-HL'']
       \<and> map call_name (filter local_step (snd (tuning_notebook env))) =
           [''load_boston'', ''train_test_split'', ''os.path.exists'']
           @ (if path_exists env ''../data/boston'' then [] else [''os.makedirs''])
           @ [''to_csv'', ''pd.concat'', ''to_csv'', ''pd.concat'', ''to_csv'', ''Estimator'',
              ''set_hyperparameters'', ''HyperparameterTuner'', ''pd.read_csv'',
              ''plt.scatter'', ''plt.xlabel'', ''plt.ylabel'', ''plt.title'', ''!rm'', ''!rmdir'']
       \<and> best_training_job env tn = Inr best
       \<and> attach env best = Inr est
       \<and> transformer_new env est 1 ''ml.m4.xlarge'' = Inr tf
       \<and> read_csv env ''../data/boston/test.csv.out'' = Inr Y_pred
       \<and> Scatter (PFrame (Y_test s)) (PFrame Y_pred) \<in> set (snd (tuning_notebook env))"
    unfolding run snd_conv
    using sess jobs calls others locals best att tfn rd plot
    by (intro exI conjI) (assumption | rule refl)+
qed

theorem platform_jobs_are_single_calls_witness:
  "fst (deploy_notebook demo_env) = None
   \<and> (\<exists>est ch. filter is_platform_job (snd (deploy_notebook demo_env)) =
         [Estimator_fit est ch, Estimator_deploy est 1 ''ml.m4.xlarge''])
   \<and> (\<exists>p rows. filter other_service_call (snd (deploy_notebook demo_env)) =
         [Upload_data ''../data/boston/validation.csv'' ''boston-xgboost-deploy-hl'',
          Upload_data ''../data/boston/train.csv'' ''boston-xgboost-deploy-hl'',
          Predict p rows, Delete_endpoint p])
   \<and> (\<exists>y decoded. Scatter y (PArray (fromstring (strtod demo_env) decoded '',''))
         \<in> set (snd (deploy_notebook demo_env)))
   \<and> fst (tuning_notebook demo_env) = None
   \<and> (\<exists>tn ch tf loc. filter is_platform_job (snd (tuning_notebook demo_env)) =
         [Tuner_fit tn ch, Transform tf loc ''text/csv'' ''Line''])
   \<and> filter other_service_call (snd (tuning_notebook demo_env)) =
         [Upload_data ''../data/boston/test.csv'' ''boston-xgboost-tuning-HL'',
          Upload_data ''../data/boston/validation.csv'' ''boston-xgboost-tuning-HL'',
          Upload_data ''../data/boston/train.csv'' ''boston-xgboost-tuning-HL'']"
proof -
  note deploy = platform_jobs_are_single_calls[of demo_env, THEN conjunct1, rule_format,
      OF demo_deploy_complete]
  note tuning = platform_jobs_are_single_calls[of demo_env, THEN conjunct2, rule_format,
      OF demo_tuning_complete]
  from deploy have d1: "\<exists>est ch. filter is_platform_job (snd (deploy_notebook demo_env)) =
         [Estimator_fit est ch, Estimator_deploy est 1 ''ml.m4.xlarge'']"
    by blast
  from deploy have d2: "\<exists>p rows. filter other_service_call (snd (deploy_notebook demo_env)) =
         [Upload_data ''../data/boston/validation.csv'' ''boston-xgboost-deploy-hl'',
          Upload_data ''../data/boston/train.csv'' ''boston-xgboost-deploy-hl'',
          Predict p rows, Delete_endpoint p]"
    by blast
  from deploy have d3: "\<exists>y decoded. Scatter y (PArray (fromstring (strtod demo_env) decoded '',''))
         \<in> set (snd (deploy_notebook demo_env))"
    by blast
  from tuning have t1: "\<exists>tn ch tf loc. filter is_platform_job (snd (tuning_notebook demo_env)) =
         [Tuner_fit tn ch, Transform tf loc ''text/csv'' ''Line'']"
    by blast
  from tuning have t2: "filter other_service_call (snd (tuning_notebook demo_env)) =
         [Upload_data ''../data/boston/test.csv'' ''boston-xgboost-tuning-HL'',
          Upload_data ''../data/boston/validation.csv'' ''boston-xgboost-tuning-HL'',
          Upload_data ''../data/boston/train.csv'' ''boston-xgboost-tuning-HL'']"
    by blast
  from demo_deploy_complete d1 d2 d3 demo_tuning_complete t1 t2 show ?thesis
    by (intro conjI)
qed

text \<open>
  The claim as stated, on the concrete environment: the deploy notebook runs to completion,
  and among its calls to the service four are neither the submission of a job, nor polling,
  nor the retrieval of an artifact, however generously these are read: the two uploads, the
  prediction request and the deletion of the endpoint.
\<close>

theorem delegation_counterexample:
  "fst (deploy_notebook demo_env) = None
   \<and> filter other_service_call (snd (deploy_notebook demo_env)) =
       [Upload_data ''../data/boston/validation.csv'' ''boston-xgboost-deploy-hl'',
        Upload_data ''../data/boston/train.csv'' ''boston-xgboost-deploy-hl'',
        Predict demo_predictor (df_rows demo_test_frame),
        Delete_endpoint demo_predictor]
   \<and> touches_service (Delete_endpoint demo_predictor :: int step)
   \<and> \<not> submits_job (Delete_endpoint demo_predictor :: int step)
   \<and> \<not> polls_job (Delete_endpoint demo_predictor :: int step)
   \<and> \<not> retrieves_artifact (Delete_endpoint demo_predictor :: int step)"
  by code_simp

subsection \<open>Staged files\<close>



subsection \<open>The route of the test inputs\<close>

text \<open>
  C6. In a complete run of the deploy notebook the only frames written to CSV are the joined
  validation and training frames and the only uploads are those two files; the rows of
  \<open>X_test\<close> are the payload of the single \<^verbatim>\<open>predict\<close> call, made on a predictor whose content
  type is \<^verbatim>\<open>text/csv\<close> and whose serializer is \<^verbatim>\<open>csv_serializer\<close>; there is no batch transform.
  In a complete run of the tuning notebook \<open>X_test\<close> is written to \<^verbatim>\<open>test.csv\<close>, that file is
  uploaded, and the single batch transform is run on the location the upload returned, with
  content type \<^verbatim>\<open>text/csv\<close> and split type \<^verbatim>\<open>Line\<close>; there is no \<^verbatim>\<open>predict\<close> call.
\<close>

theorem test_inputs_route:
  "(fst (deploy_notebook env) = None \<longrightarrow>
      (\<exists>boston s val_frame train_frame p.
         load_boston env = Inr boston
       \<and> split_cell (rng_permutation env 0) (rng_permutation env 1) boston = Inr s
       \<and> concat_axis1 (nan env) (Y_val s) (X_val s) = Inr val_frame
       \<and> concat_axis1 (nan env) (Y_train s) (X_train s) = Inr train_frame
       \<and> filter is_to_csv (snd (deploy_notebook env)) =
           [To_csv val_frame ''../data/boston/validation.csv'' False False,
            To_csv train_frame ''../data/boston/train.csv'' False False]
       \<and> filter is_upload_data (snd (deploy_notebook env)) =
           [Upload_data ''../data/boston/validation.csv'' ''boston-xgboost-deploy-hl'',
            Upload_data ''../data/boston/train.csv'' ''boston-xgboost-deploy-hl'']
       \<and> filter is_predict (snd (deploy_notebook env)) = [Predict p (df_rows (X_test s))]
       \<and> content_type p = Some ''text/csv''
       \<and> serializer p = Some csv_serializer
       \<and> \<not> list_ex is_transform (snd (deploy_notebook env))))
 \<and> (fst (tuning_notebook env) = None \<longrightarrow>
      (\<exists>session boston s test_location tf.
         session_new env = Inr session
       \<and> load_boston env = Inr boston
       \<and> split_cell (rng_permutation env 0) (rng_permutation env 1) boston = Inr s
       \<and> upload_data env session ''../data/boston/test.csv'' ''boston-xgboost-tuning-HL''
            = Inr test_location
       \<and> occur_in_order
           [(=) (To_csv (X_test s) ''../data/boston/test.csv'' False False),
            (=) (Upload_data ''../data/boston/test.csv'' ''boston-xgboost-tuning-HL''),
            (=) (Transform tf test_location ''text/csv'' ''Line'')]
           (snd (tuning_notebook env))
       \<and> filter is_transform (snd (tuning_notebook env)) =
           [Transform tf test_location ''text/csv'' ''Line'']
       \<and> \<not> list_ex is_predict (snd (tuning_notebook env))))"
proof (intro conjI impI)
  assume "fst (deploy_notebook env) = None"
  then obtain tr where run: "deploy_notebook env = (None, tr)"
    by (rule complete_run)
  from deploy_complete[OF run]
  obtain session r boston s val_frame train_frame val_location train_location container
    bucket p response decoded
    where eqs: "load_boston env = Inr boston"
      "split_cell (rng_permutation env 0) (rng_permutation env 1) boston = Inr s"
      "concat_axis1 (nan env) (Y_val s) (X_val s) = Inr val_frame"
      "concat_axis1 (nan env) (Y_train s) (X_train s) = Inr train_frame"
    and tr: "tr = deploy_steps env session r s val_frame train_frame val_location
                    train_location container bucket p response decoded"
    by blast
  let ?p = "p\<lparr>content_type := Some ''text/csv'', serializer := Some csv_serializer\<rparr>"
  have written: "filter is_to_csv tr =
           [To_csv val_frame ''../data/boston/validation.csv'' False False,
            To_csv train_frame ''../data/boston/train.csv'' False False]"
    unfolding tr deploy_steps_def by (simp add: is_to_csv_def)
  have uploaded: "filter is_upload_data tr =
           [Upload_data ''../data/boston/validation.csv'' ''boston-xgboost-deploy-hl'',
            Upload_data ''../data/boston/train.csv'' ''boston-xgboost-deploy-hl'']"
    unfolding tr deploy_steps_def by (simp add: is_upload_data_def)
  have sent: "filter is_predict tr = [Predict ?p (df_rows (X_test s))]"
    unfolding tr deploy_steps_def by (simp add: is_predict_def)
  have no_batch: "\<not> list_ex is_transform tr"
    unfolding tr deploy_steps_def by (simp add: is_transform_def)
  show "\<exists>boston s val_frame train_frame p.
         load_boston env = Inr boston
       \<and> split_cell (rng_permutation env 0) (rng_permutation env 1) boston = Inr s
       \<and> concat_axis1 (nan env) (Y_val s) (X_val s) = Inr val_frame
       \<and> concat_axis1 (nan env) (Y_train s) (X_train s) = Inr train_frame
       \<and> filter is_to_csv (snd (deploy_notebook env)) =
           [To_csv val_frame ''../data/boston/validation.csv'' False False,
            To_csv train_frame ''../data/boston/train.csv'' False False]
       \<and> filter is_upload_data (snd (deploy_notebook env)) =
           [Upload_data ''../data/boston/validation.csv'' ''boston-xgboost-deploy-hl'',
            Upload_data ''../data/boston/train.csv'' ''boston-xgboost-deploy-hl'']
       \<and> filter is_predict (snd (deploy_notebook env)) = [Predict p (df_rows (X_test s))]
       \<and> content_type p = Some ''text/csv''
       \<and> serializer p = Some csv_serializer
       \<and> \<not> list_ex is_transform (snd (deploy_notebook env))"
    unfolding run snd_conv
    by (intro exI[of _ boston] exI[of _ s] exI[of _ val_frame] exI[of _ train_frame]
        exI[of _ ?p])
      (use eqs written uploaded sent no_batch in simp_all)
next
  assume "fst (tuning_notebook env) = None"
  then obtain tr where run: "tuning_notebook env = (None, tr)"
    by (rule complete_run)
  from tuning_complete[OF run]
  obtain session r boston s val_frame train_frame test_location val_location train_location
    container bucket best xgb_attached xgb_transformer Y_pred
    where eqs: "session_new env = Inr session" "load_boston env = Inr boston"
      "split_cell (rng_permutation env 0) (rng_permutation env 1) boston = Inr s"
      "upload_data env session ''../data/boston/test.csv'' ''boston-xgboost-tuning-HL''
         = Inr test_location"
    and tr: "tr = tuning_steps env session r s val_frame train_frame test_location val_location
                    train_location container bucket best xgb_attached xgb_transformer Y_pred"
    by blast
  have ord: "occur_in_order
           [(=) (To_csv (X_test s) ''../data/boston/test.csv'' False False),
            (=) (Upload_data ''../data/boston/test.csv'' ''boston-xgboost-tuning-HL''),
            (=) (Transform xgb_transformer test_location ''text/csv'' ''Line'')]
           tr"
    unfolding tr tuning_steps_def by simp
  have batch: "filter is_transform tr =
           [Transform xgb_transformer test_location ''text/csv'' ''Line'']"
    unfolding tr tuning_steps_def by (simp add: is_transform_def)
  have no_predict: "\<not> list_ex is_predict tr"
    unfolding tr tuning_steps_def by (simp add: is_predict_def)
  show "\<exists>session boston s test_location tf.
         session_new env = Inr session
       \<and> load_boston env = Inr boston
       \<and> split_cell (rng_permutation env 0) (rng_permutation env 1) boston = Inr s
       \<and> upload_data env session ''../data/boston/test.csv'' ''boston-xgboost-tuning-HL''
            = Inr test_location
       \<and> occur_in_order
           [(=) (To_csv (X_test s) ''../data/boston/test.csv'' False False),
            (=) (Upload_data ''../data/boston/test.csv'' ''boston-xgboost-tuning-HL''),
            (=) (Transform tf test_location ''text/csv'' ''Line'')]
           (snd (tuning_notebook env))
       \<and> filter is_transform (snd (tuning_notebook env)) =
           [Transform tf test_location ''text/csv'' ''Line'']
       \<and> \<not> list_ex is_predict (snd (tuning_notebook env))"
    unfolding run snd_conv
    by (intro exI[of _ session] exI[of _ boston] exI[of _ s] exI[of _ test_location]
        exI[of _ xgb_transformer])
      (use eqs ord batch no_predict in simp_all)
qed

theorem test_inputs_route_witness:
  "fst (deploy_notebook demo_env) = None
   \<and> fst (tuning_notebook demo_env) = None
   \<and> length (filter is_predict (snd (deploy_notebook demo_env))) = 1
   \<and> \<not> list_ex is_transform (snd (deploy_notebook demo_env))
   \<and> length (filter is_transform (snd (tuning_notebook demo_env))) = 1
   \<and> \<not> list_ex is_predict (snd (tuning_notebook demo_env))"
  using test_inputs_route[of demo_env] demo_deploy_complete demo_tuning_complete
  by auto

subsection \<open>Exceptions of the client library\<close>

lemma propagates_finished: "propagates env finished"
  by (simp add: propagates_def finished_def)

lemma propagates_stmt_iff:
  assumes side: "client_raises env c = None \<or> client_raises env c = raised_by r"
  shows "propagates env (stmt c r k) \<longleftrightarrow> (\<forall>x. r = Inr x \<longrightarrow> propagates env (k x))"
proof (cases r)
  case (Inl e)
  with side show ?thesis
    by (auto simp: propagates_def stmt_def raised_by_def)
next
  case (Inr x)
  have none: "client_raises env c = None"
    using side Inr by (auto simp: raised_by_def)
  obtain res tr where k: "k x = (res, tr)" by (cases "k x")
  have run: "stmt c r k = (res, c # tr)"
    using Inr k by (simp add: stmt_def)
  have "propagates env (res, c # tr) \<longleftrightarrow> propagates env (res, tr)"
  proof
    assume p: "propagates env (res, tr)"
    show "propagates env (res, c # tr)"
      unfolding propagates_def
    proof (intro allI impI, elim conjE)
      fix c' e
      assume mem: "c' \<in> set (snd (res, c # tr))" and raises: "client_raises env c' = Some e"
      with none have in_tr: "c' \<in> set tr" and neq: "c' \<noteq> c" by auto
      with p raises have "res = Some e" "last tr = c'" "c' \<notin> set (butlast tr)"
        by (auto simp: propagates_def)
      moreover from in_tr have "tr \<noteq> []" by auto
      ultimately show "fst (res, c # tr) = Some e \<and> last (snd (res, c # tr)) = c'
                         \<and> c' \<notin> set (butlast (snd (res, c # tr)))"
        using neq by simp
    qed
  next
    assume p: "propagates env (res, c # tr)"
    show "propagates env (res, tr)"
      unfolding propagates_def
    proof (intro allI impI, elim conjE)
      fix c' e
      assume mem: "c' \<in> set (snd (res, tr))" and raises: "client_raises env c' = Some e"
      then have "c' \<in> set (snd (res, c # tr))" by simp
      with p raises have "res = Some e" "last (c # tr) = c'" "c' \<notin> set (butlast (c # tr))"
        by (auto simp: propagates_def)
      moreover from mem have "tr \<noteq> []" by auto
      ultimately show "fst (res, tr) = Some e \<and> last (snd (res, tr)) = c'
                         \<and> c' \<notin> set (butlast (snd (res, tr)))"
        by simp
    qed
  qed
  then show ?thesis
    using Inr k run by simp
qed

lemma propagates_stmt_if_iff:
  assumes "client_raises env c = None \<or> client_raises env c = raised_by r"
  shows "propagates env (stmt_if b c r k) \<longleftrightarrow>
           (if b then r = Inr () \<longrightarrow> propagates env (k ()) else propagates env (k ()))"
  using assms by (simp add: stmt_if_def propagates_stmt_iff)

lemma deploy_propagates: "propagates env (deploy_notebook env)"
  unfolding deploy_notebook_def
  by (simp add: propagates_stmt_iff propagates_stmt_if_iff propagates_finished
      client_raises_def Let_def)

lemma tuning_propagates: "propagates env (tuning_notebook env)"
  unfolding tuning_notebook_def
  by (simp add: propagates_stmt_iff propagates_stmt_if_iff propagates_finished
      client_raises_def Let_def)

text \<open>
  C4. In either notebook, whenever one of the client calls \<^verbatim>\<open>fit\<close>, \<^verbatim>\<open>wait\<close>, \<^verbatim>\<open>deploy\<close>,
  \<^verbatim>\<open>transform\<close>, \<^verbatim>\<open>predict\<close> or \<^verbatim>\<open>delete_endpoint\<close> is performed and the library raises an
  exception there, the run ends with exactly that exception; the raising call is the last
  step performed, so nothing after it runs (no handler, no fallback, no clean-up: after a
  failed \<^verbatim>\<open>predict\<close> the endpoint is not deleted and the files are not removed), and the call
  had not been made before (no retry).
\<close>

theorem client_errors_propagate:
  assumes "run = deploy_notebook env \<or> run = tuning_notebook env"
    and "c \<in> set (snd run)"
    and "client_raises env c = Some e"
  shows "fst run = Some e \<and> last (snd run) = c \<and> c \<notin> set (butlast (snd run))"
  using assms deploy_propagates[of env] tuning_propagates[of env]
  unfolding propagates_def by blast

theorem client_errors_propagate_witness:
  "fst (deploy_notebook failing_predict_env) = Some (LibraryError ''ModelError'')
   \<and> last (snd (deploy_notebook failing_predict_env)) =
       Predict \<lparr>endpoint = ''xgboost-endpoint'', content_type = Some ''text/csv'',
                serializer = Some csv_serializer\<rparr>
         [[201, 202, 203, 204, 205, 206, 207, 208, 209, 210, 211, 212, 213],
          [1, 2, 3, 4, 5, 6, 7, 8, 9, 10, 11, 12, 13]]
   \<and> fst (tuning_notebook failing_wait_env) = Some (LibraryError ''UnexpectedStatusException'')
   \<and> last (snd (tuning_notebook failing_wait_env)) =
       Transformer_wait \<lparr>model_name = ''xgboost-job-011'', instance_count = 1,
                         instance_type = ''ml.m4.xlarge'',
                         transformer_output_path = ''s3://bucket/xgboost-job-011''\<rparr>"
proof -
  let ?c = "Predict \<lparr>endpoint = ''xgboost-endpoint'', content_type = Some ''text/csv'',
                serializer = Some csv_serializer\<rparr>
         [[201, 202, 203, 204, 205, 206, 207, 208, 209, 210, 211, 212, 213],
          [1, 2, 3, 4, 5, 6, 7, 8, 9, 10, 11, 12, 13 :: int]]"
  let ?w = "Transformer_wait \<lparr>model_name = ''xgboost-job-011'', instance_count = 1,
                         instance_type = ''ml.m4.xlarge'',
                         transformer_output_path = ''s3://bucket/xgboost-job-011''\<rparr>
              :: int step"
  have c1: "?c \<in> set (snd (deploy_notebook failing_predict_env))" by code_simp
  have c2: "client_raises failing_predict_env ?c = Some (LibraryError ''ModelError'')"
    by code_simp
  have w1: "?w \<in> set (snd (tuning_notebook failing_wait_env))" by code_simp
  have w2: "client_raises failing_wait_env ?w = Some (LibraryError ''UnexpectedStatusException'')"
    by code_simp
  show ?thesis
    using client_errors_propagate[OF disjI1[OF refl] c1 c2]
      client_errors_propagate[OF disjI2[OF refl] w1 w2]
    by simp
qed

subsection \<open>The order of the glue steps\<close>

lemma follows_stmt:
  "follows (n # names) (snd (stmt c r k))
     \<longleftrightarrow> call_name c = n \<and> (\<forall>x. r = Inr x \<longrightarrow> follows names (snd (k x)))"
  "\<not> follows [] (snd (stmt c r k))"
  by (cases r; auto simp: stmt_def split: prod.splits)+

lemma follows_finished: "follows names (snd finished)"
  by (simp add: finished_def)

lemma preceded_stmt:
  "preceded seen P Q (snd (stmt c r k))
     \<longleftrightarrow> (P c \<longrightarrow> seen) \<and> (\<forall>x. r = Inr x \<longrightarrow> preceded (seen \<or> Q c) P Q (snd (k x)))"
  by (cases r) (auto simp: stmt_def split: prod.splits)

lemma preceded_finished: "preceded seen P Q (snd finished)"
  by (simp add: finished_def)

lemma never_after_stmt:
  "never_after seen P Q (snd (stmt c r k))
     \<longleftrightarrow> (P c \<longrightarrow> \<not> seen)
         \<and> (\<forall>x. r = Inr x \<longrightarrow> never_after (seen \<or> Q c) P Q (snd (k x)))"
  by (cases r) (auto simp: stmt_def split: prod.splits)

lemma never_after_finished: "never_after seen P Q (snd finished)"
  by (simp add: finished_def)

lemma deploy_follows:
  "follows (deploy_calls (path_exists env ''../data/boston'')) (snd (deploy_notebook env))"
  unfolding deploy_notebook_def deploy_calls_def
  by (cases "path_exists env ''../data/boston''")
    (simp_all add: follows_stmt follows_finished stmt_if_def call_name_def Let_def)

lemma tuning_follows:
  "follows (tuning_calls (path_exists env ''../data/boston'')) (snd (tuning_notebook env))"
  unfolding tuning_notebook_def tuning_calls_def
  by (cases "path_exists env ''../data/boston''")
    (simp_all add: follows_stmt follows_finished stmt_if_def call_name_def Let_def)

lemma deploy_kind_order:
  "preceded False (has_kind Write_csv) (has_kind Read_data) (snd (deploy_notebook env))"
  "preceded False (has_kind Poll_completion) (has_kind Call_api) (snd (deploy_notebook env))"
  "preceded False (has_kind Parse_response) (has_kind Poll_completion) (snd (deploy_notebook env))"
  "preceded False (has_kind Plot_chart) (has_kind Parse_response) (snd (deploy_notebook env))"
  "preceded False (has_kind Delete_resources) (has_kind Plot_chart) (snd (deploy_notebook env))"
  unfolding deploy_notebook_def
  by (simp_all add: preceded_stmt preceded_finished stmt_if_def has_kind_def kinds_def Let_def)

lemma tuning_kind_order:
  "preceded False (has_kind Write_csv) (has_kind Read_data) (snd (tuning_notebook env))"
  "preceded False (has_kind Poll_completion) (has_kind Call_api) (snd (tuning_notebook env))"
  "preceded False (has_kind Parse_response) (has_kind Poll_completion) (snd (tuning_notebook env))"
  "preceded False (has_kind Plot_chart) (has_kind Parse_response) (snd (tuning_notebook env))"
  "preceded False (has_kind Delete_resources) (has_kind Plot_chart) (snd (tuning_notebook env))"
  unfolding tuning_notebook_def
  by (simp_all add: preceded_stmt preceded_finished stmt_if_def has_kind_def kinds_def Let_def)

lemma deploy_kind_separation:
  "never_after False (has_kind Poll_completion) (has_kind Parse_response)
     (snd (deploy_notebook env))"
  "never_after False (has_kind Parse_response) (has_kind Plot_chart) (snd (deploy_notebook env))"
  "never_after False (has_kind Plot_chart) (has_kind Delete_resources) (snd (deploy_notebook env))"
  unfolding deploy_notebook_def
  by (simp_all add: never_after_stmt never_after_finished stmt_if_def has_kind_def kinds_def
      Let_def)

lemma tuning_kind_separation:
  "never_after False (has_kind Poll_completion) (has_kind Parse_response)
     (snd (tuning_notebook env))"
  "never_after False (has_kind Parse_response) (has_kind Plot_chart) (snd (tuning_notebook env))"
  "never_after False (has_kind Plot_chart) (has_kind Delete_resources) (snd (tuning_notebook env))"
  unfolding tuning_notebook_def
  by (simp_all add: never_after_stmt never_after_finished stmt_if_def has_kind_def kinds_def
      Let_def)

lemma session_call_first:
  "\<not> preceded False (has_kind Call_api) (has_kind Write_csv) (snd (deploy_notebook env))"
  "\<not> preceded False (has_kind Call_api) (has_kind Write_csv) (snd (tuning_notebook env))"
  unfolding deploy_notebook_def tuning_notebook_def
  by (simp_all add: preceded_stmt has_kind_def kinds_def)

lemma deploy_steps_kinds:
  assumes tr: "tr = deploy_steps env session r s val_frame train_frame val_location
                   train_location container bucket p response decoded"
  shows "occur_in_order (map has_kind glue_order) tr"
    and "\<not> in_phases 0 tr"
    and "map call_name tr = deploy_calls (path_exists env ''../data/boston'')"
    and "\<not> never_after False (has_kind Call_api) (has_kind Poll_completion) tr"
  unfolding tr deploy_steps_def deploy_calls_def
  by (simp_all add: has_kind_def kinds_def glue_order_def rank_def call_name_def)

lemma tuning_steps_kinds:
  assumes tr: "tr = tuning_steps env session r s val_frame train_frame test_location val_location
                   train_location container bucket best xgb_attached xgb_transformer Y_pred"
  shows "occur_in_order (map has_kind glue_order) tr"
    and "\<not> in_phases 0 tr"
    and "map call_name tr = tuning_calls (path_exists env ''../data/boston'')"
    and "\<not> never_after False (has_kind Call_api) (has_kind Poll_completion) tr"
  unfolding tr tuning_steps_def tuning_calls_def
  by (simp_all add: has_kind_def kinds_def glue_order_def rank_def call_name_def)

text \<open>
  C5, as the code has it. The glue code is sequential and linear: the calls of every run of a
  notebook, complete or not, are an initial segment of one fixed sequence, in which the only
  variation is \<^verbatim>\<open>os.makedirs\<close>, performed exactly when the directory check finds no data
  directory; a complete run performs the whole sequence. In a complete run, steps of the seven
  kinds occur in the listed order: read data, write CSV, call an API, poll for completion (the
  blocking \<^verbatim>\<open>fit\<close> and \<^verbatim>\<open>deploy\<close> in the deploy notebook, the \<^verbatim>\<open>wait\<close> calls in the tuning
  notebook), parse a response, plot a scatter chart, delete resources. In every run, CSV is
  written only after data was read, polling happens only after an API call, a response is
  parsed only after polling and no polling follows the parsing, a chart is plotted only after
  parsing and nothing is parsed after it, and resources are deleted only after the chart is
  plotted and nothing is plotted after a deletion. The kinds are not seven phases, however:
  the first call of every run, \<^verbatim>\<open>sagemaker.Session()\<close>, is an API call made before any data is
  read or CSV written, so a complete run cannot be read as phases in the listed order; and in
  a complete run an API call is made after polling (\<^verbatim>\<open>predict\<close> after the blocking \<^verbatim>\<open>deploy\<close>;
  \<^verbatim>\<open>best_training_job\<close>, \<^verbatim>\<open>attach\<close> and \<^verbatim>\<open>transform\<close> after the first \<^verbatim>\<open>wait\<close>).
\<close>

theorem glue_steps_in_order:
  assumes run:
    "run = deploy_notebook env \<and> calls = deploy_calls (path_exists env ''../data/boston'')
     \<or> run = tuning_notebook env \<and> calls = tuning_calls (path_exists env ''../data/boston'')"
  shows "follows calls (snd run)
       \<and> (fst run = None \<longrightarrow> map call_name (snd run) = calls)
       \<and> (fst run = None \<longrightarrow> occur_in_order (map has_kind glue_order) (snd run))
       \<and> preceded False (has_kind Write_csv) (has_kind Read_data) (snd run)
       \<and> preceded False (has_kind Poll_completion) (has_kind Call_api) (snd run)
       \<and> preceded False (has_kind Parse_response) (has_kind Poll_completion) (snd run)
       \<and> preceded False (has_kind Plot_chart) (has_kind Parse_response) (snd run)
       \<and> preceded False (has_kind Delete_resources) (has_kind Plot_chart) (snd run)
       \<and> never_after False (has_kind Poll_completion) (has_kind Parse_response) (snd run)
       \<and> never_after False (has_kind Parse_response) (has_kind Plot_chart) (snd run)
       \<and> never_after False (has_kind Plot_chart) (has_kind Delete_resources) (snd run)
       \<and> \<not> preceded False (has_kind Call_api) (has_kind Write_csv) (snd run)
       \<and> (fst run = None \<longrightarrow> \<not> in_phases 0 (snd run))
       \<and> (fst run = None \<longrightarrow>
            \<not> never_after False (has_kind Call_api) (has_kind Poll_completion) (snd run))"
  using run
proof (elim disjE conjE)
  assume r: "run = deploy_notebook env"
    and c: "calls = deploy_calls (path_exists env ''../data/boston'')"
  have complete: "map call_name (snd run) = calls
      \<and> occur_in_order (map has_kind glue_order) (snd run) \<and> \<not> in_phases 0 (snd run)
      \<and> \<not> never_after False (has_kind Call_api) (has_kind Poll_completion) (snd run)"
    if "fst run = None"
  proof -
    from that r obtain tr where nb: "deploy_notebook env = (None, tr)"
      by (auto elim: complete_run)
    from deploy_complete[OF nb]
    obtain session ro s val_frame train_frame val_location train_location container
      bucket p response decoded
      where tr: "tr = deploy_steps env session ro s val_frame train_frame val_location
                    train_location container bucket p response decoded"
      by blast
    from deploy_steps_kinds[OF tr] show ?thesis
      by (simp add: r nb c)
  qed
  show ?thesis
    unfolding r c
    using deploy_follows[of env] deploy_kind_order[of env] deploy_kind_separation[of env]
      session_call_first(1)[of env] complete[unfolded r c]
    by (intro conjI impI) simp_all
next
  assume r: "run = tuning_notebook env"
    and c: "calls = tuning_calls (path_exists env ''../data/boston'')"
  have complete: "map call_name (snd run) = calls
      \<and> occur_in_order (map has_kind glue_order) (snd run) \<and> \<not> in_phases 0 (snd run)
      \<and> \<not> never_after False (has_kind Call_api) (has_kind Poll_completion) (snd run)"
    if "fst run = None"
  proof -
    from that r obtain tr where nb: "tuning_notebook env = (None, tr)"
      by (auto elim: complete_run)
    from tuning_complete[OF nb]
    obtain session ro s val_frame train_frame test_location val_location train_location
      container bucket best xgb_attached xgb_transformer Y_pred
      where tr: "tr = tuning_steps env session ro s val_frame train_frame test_location
                    val_location train_location container bucket best xgb_attached
                    xgb_transformer Y_pred"
      by blast
    from tuning_steps_kinds[OF tr] show ?thesis
      by (simp add: r nb c)
  qed
  show ?thesis
    unfolding r c
    using tuning_follows[of env] tuning_kind_order[of env] tuning_kind_separation[of env]
      session_call_first(2)[of env] complete[unfolded r c]
    by (intro conjI impI) simp_all
qed

theorem glue_steps_in_order_witness:
  "fst (deploy_notebook demo_env) = None
   \<and> map call_name (snd (deploy_notebook demo_env)) = deploy_calls False
   \<and> occur_in_order (map has_kind glue_order) (snd (deploy_notebook demo_env))
   \<and> fst (tuning_notebook demo_env) = None
   \<and> map call_name (snd (tuning_notebook demo_env)) = tuning_calls False
   \<and> occur_in_order (map has_kind glue_order) (snd (tuning_notebook demo_env))
   \<and> fst (deploy_notebook failing_predict_env) = Some (LibraryError ''ModelError'')
   \<and> follows (deploy_calls False) (snd (deploy_notebook failing_predict_env))
   \<and> preceded False (has_kind Parse_response) (has_kind Poll_completion)
        (snd (deploy_notebook failing_predict_env))
   \<and> never_after False (has_kind Plot_chart) (has_kind Delete_resources)
        (snd (tuning_notebook demo_env))"
proof -
  have dir: "\<not> path_exists demo_env ''../data/boston''"
    "\<not> path_exists failing_predict_env ''../data/boston''"
    by code_simp+
  have failed: "fst (deploy_notebook failing_predict_env) = Some (LibraryError ''ModelError'')"
    by code_simp
  from glue_steps_in_order[of "deploy_notebook demo_env" demo_env "deploy_calls False"]
    glue_steps_in_order[of "tuning_notebook demo_env" demo_env "tuning_calls False"]
    glue_steps_in_order[of "deploy_notebook failing_predict_env" failing_predict_env
      "deploy_calls False"]
    dir failed demo_deploy_complete demo_tuning_complete
  show ?thesis by simp
qed

text \<open>
  The claim as stated, on concrete environments. In every run all seven kinds are performed:
  the run in which \<^verbatim>\<open>predict\<close> raises plots nothing and deletes nothing. In exactly that
  order, no step before its predecessor: both notebooks run to completion, yet their steps
  cannot be read as phases in the listed order, since an API call is made before any CSV is
  written; and in the tuning notebook a job is submitted (\<^verbatim>\<open>transform\<close>) after polling.
\<close>

theorem glue_order_counterexample:
  "fst (deploy_notebook failing_predict_env) = Some (LibraryError ''ModelError'')
   \<and> \<not> list_ex (has_kind Plot_chart) (snd (deploy_notebook failing_predict_env))
   \<and> \<not> list_ex (has_kind Delete_resources) (snd (deploy_notebook failing_predict_env))
   \<and> fst (deploy_notebook demo_env) = None
   \<and> \<not> in_phases 0 (snd (deploy_notebook demo_env))
   \<and> \<not> preceded False (has_kind Call_api) (has_kind Write_csv) (snd (deploy_notebook demo_env))
   \<and> fst (tuning_notebook demo_env) = None
   \<and> \<not> in_phases 0 (snd (tuning_notebook demo_env))
   \<and> \<not> preceded False (has_kind Call_api) (has_kind Write_csv) (snd (tuning_notebook demo_env))
   \<and> occur_in_order [has_kind Poll_completion, is_transform] (snd (tuning_notebook demo_env))"
  by code_simp

subsection \<open>Layout of the CSV files\<close>

lemma DataFrame_Inr:
  assumes "DataFrame vals cols = Inr df"
  shows "df = \<lparr>df_columns = cols, df_index = [0..<length vals], df_rows = vals\<rparr>"
    and "list_all (\<lambda>r. length r = length cols) vals"
  using assms by (auto simp: DataFrame_def split: if_splits)

lemma iloc_Inr:
  assumes "iloc df ps = Inr df'"
  shows "df' = pick df ps"
    and "\<And>p. p \<in> set ps \<Longrightarrow> p < length (df_rows df) \<and> p < length (df_index df)"
  using assms by (auto simp: iloc_def pick_def list_all_iff split: if_splits)

lemma train_test_split_Inr:
  assumes "train_test_split perm X Y t = Inr (X1, X2, Y1, Y2)"
  shows "\<exists>tr te. X1 = pick X tr \<and> X2 = pick X te \<and> Y1 = pick Y tr \<and> Y2 = pick Y te
           \<and> (\<forall>p \<in> set tr \<union> set te. p < length (df_index X) \<and> p < length (df_index Y))"
proof -
  let ?n = "length (df_rows X)"
  let ?te = "take (nat \<lceil>t * of_nat ?n\<rceil>) perm"
  let ?tr = "take (?n - nat \<lceil>t * of_nat ?n\<rceil>) (drop (nat \<lceil>t * of_nat ?n\<rceil>) perm)"
  from assms have ok: "iloc X ?tr = Inr X1" "iloc X ?te = Inr X2"
      "iloc Y ?tr = Inr Y1" "iloc Y ?te = Inr Y2"
    by (auto simp: train_test_split_def Let_def and_then_def split: if_splits sum.splits)
  from iloc_Inr[OF ok(1)] iloc_Inr[OF ok(2)] iloc_Inr[OF ok(3)] iloc_Inr[OF ok(4)]
  show ?thesis
    by (intro exI[of _ ?tr] exI[of _ ?te]) auto
qed

lemma pick_index_subset:
  assumes "\<And>p. p \<in> set ps \<Longrightarrow> p < length (df_index df)"
  shows "set (df_index (pick df ps)) \<subseteq> set (df_index df)"
  using assms by (auto simp: pick_simps)

lemma split_cell_Inr:
  assumes "split_cell perm1 perm2 boston = Inr s"
  shows "paired boston (X_train s) (Y_train s)"
    and "paired boston (X_val s) (Y_val s)"
    and "paired boston (X_test s) (Y_test s)"
    and "set (df_index (X_train s)) \<subseteq> {0..<length (data boston)}"
    and "set (df_index (X_val s)) \<subseteq> {0..<length (data boston)}"
    and "set (df_index (X_test s)) \<subseteq> {0..<length (data boston)}"
    and "list_all (\<lambda>r. length r = length (feature_names boston)) (data boston)"
proof -
  let ?N = "length (data boston)"
  from assms obtain X0 Y0 X1 Xte Y1 Yte Xtr Xva Ytr Yva
    where X0: "DataFrame (data boston) (map StrLabel (feature_names boston)) = Inr X0"
      and Y0: "DataFrame (map (\<lambda>t. [t]) (target boston)) [IntLabel 0] = Inr Y0"
      and sp1: "train_test_split perm1 X0 Y0 (33 / 100) = Inr (X1, Xte, Y1, Yte)"
      and sp2: "train_test_split perm2 X1 Y1 (33 / 100) = Inr (Xtr, Xva, Ytr, Yva)"
      and s: "s = \<lparr>X_train = Xtr, X_val = Xva, X_test = Xte,
                   Y_train = Ytr, Y_val = Yva, Y_test = Yte\<rparr>"
    by (auto simp: split_cell_def and_then_def split: sum.splits prod.splits)
  note X0' = DataFrame_Inr[OF X0] and Y0' = DataFrame_Inr[OF Y0]
  from X0'(2) show "list_all (\<lambda>r. length r = length (feature_names boston)) (data boston)"
    by simp
  from sp1 have len: "length (target boston) = ?N"
    by (auto simp: train_test_split_def Let_def X0'(1) Y0'(1) split: if_splits)
  have rowsY: "map (\<lambda>t. [t]) (target boston) = map (\<lambda>i. [target boston ! i]) [0..<?N]"
    using len by (intro nth_equalityI) simp_all
  have pair0: "paired boston X0 Y0"
    using rowsY by (simp add: paired_def X0'(1) Y0'(1) len map_nth)
  have idx0: "set (df_index X0) \<subseteq> {0..<?N}"
    by (simp add: X0'(1))
  from train_test_split_Inr[OF sp1] obtain tr1 te1
    where p1: "X1 = pick X0 tr1" "Xte = pick X0 te1" "Y1 = pick Y0 tr1" "Yte = pick Y0 te1"
      and r1: "\<forall>p \<in> set tr1 \<union> set te1. p < length (df_index X0) \<and> p < length (df_index Y0)"
    by blast
  have pair1: "paired boston X1 Y1" and pair_te: "paired boston Xte Yte"
    unfolding p1 using r1 by (auto intro!: pick_paired[OF pair0])
  have idx1: "set (df_index X1) \<subseteq> {0..<?N}" and idx_te: "set (df_index Xte) \<subseteq> {0..<?N}"
    unfolding p1 using r1 idx0 pick_index_subset[of tr1 X0] pick_index_subset[of te1 X0]
    by blast+
  from train_test_split_Inr[OF sp2] obtain tr2 te2
    where p2: "Xtr = pick X1 tr2" "Xva = pick X1 te2" "Ytr = pick Y1 tr2" "Yva = pick Y1 te2"
      and r2: "\<forall>p \<in> set tr2 \<union> set te2. p < length (df_index X1) \<and> p < length (df_index Y1)"
    by blast
  have pair_tr: "paired boston Xtr Ytr" and pair_va: "paired boston Xva Yva"
    unfolding p2 using r2 by (auto intro!: pick_paired[OF pair1])
  have idx_tr: "set (df_index Xtr) \<subseteq> {0..<?N}" and idx_va: "set (df_index Xva) \<subseteq> {0..<?N}"
    unfolding p2 using r2 idx1 pick_index_subset[of tr2 X1] pick_index_subset[of te2 X1]
    by blast+
  show "paired boston (X_train s) (Y_train s)" "paired boston (X_val s) (Y_val s)"
    "paired boston (X_test s) (Y_test s)"
    using pair_tr pair_va pair_te by (simp_all add: s)
  show "set (df_index (X_train s)) \<subseteq> {0..<?N}" "set (df_index (X_val s)) \<subseteq> {0..<?N}"
    "set (df_index (X_test s)) \<subseteq> {0..<?N}"
    using idx_tr idx_va idx_te by (simp_all add: s)
qed

lemma zip_map_same: "zip xs (map f xs) = map (\<lambda>x. (x, f x)) xs"
  by (induction xs) simp_all

lemma map2_append_same:
  "map2 (@) (map f xs) (map g xs) = map (\<lambda>x. f x @ g x) xs"
  by (induction xs) simp_all

lemma features_records:
  assumes "paired boston X Y"
  shows "csv_records X False False = map (\<lambda>i. map FValue (data boston ! i)) (df_index X)"
  using assms by (simp add: csv_records_def paired_def zip_map_same comp_def)

lemma target_features_records:
  assumes "paired boston X Y" and "concat_axis1 nan_value Y X = Inr df"
  shows "csv_records df False False =
           map (\<lambda>i. FValue (target boston ! i) # map FValue (data boston ! i)) (df_index X)"
proof -
  from assms(1) have idx: "df_index Y = df_index X"
    and rx: "df_rows X = map (\<lambda>i. data boston ! i) (df_index X)"
    and ry: "df_rows Y = map (\<lambda>i. [target boston ! i]) (df_index X)"
    by (simp_all add: paired_def)
  from assms(2) idx have df: "df = \<lparr>df_columns = df_columns Y @ df_columns X,
      df_index = df_index X, df_rows = map2 (@) (df_rows Y) (df_rows X)\<rparr>"
    by (simp add: concat_axis1_def)
  have "map2 (@) (df_rows Y) (df_rows X) =
          map (\<lambda>i. target boston ! i # data boston ! i) (df_index X)"
    unfolding rx ry by (simp add: map2_append_same)
  then show ?thesis
    by (simp add: csv_records_def df zip_map_same comp_def)
qed

lemma joined_layout:
  assumes pair: "paired boston X Y"
    and idx: "set (df_index X) \<subseteq> {0..<length (data boston)}"
    and wid: "list_all (\<lambda>r. length r = 13) (data boston)"
    and cat: "concat_axis1 nan_value Y X = Inr df"
  shows "\<exists>idx. set idx \<subseteq> {0..<length (data boston)} \<and>
           csv_records df False False =
             map (\<lambda>i. FValue (target boston ! i) # map FValue (data boston ! i)) idx"
    and "list_all (\<lambda>rec. length rec = 14) (csv_records df False False)"
    and "length (csv_records df False False) = length (df_rows df)"
proof -
  note recs = target_features_records[OF pair cat]
  from recs idx
  show "\<exists>idx. set idx \<subseteq> {0..<length (data boston)} \<and>
           csv_records df False False =
             map (\<lambda>i. FValue (target boston ! i) # map FValue (data boston ! i)) idx"
    by blast
  from idx wid have "\<And>i. i \<in> set (df_index X) \<Longrightarrow> length (data boston ! i) = 13"
    by (auto simp: list_all_iff)
  then show "list_all (\<lambda>rec. length rec = 14) (csv_records df False False)"
    unfolding recs by (simp add: list_all_iff)
  from pair cat have "length (df_rows df) = length (df_index X)"
    by (auto simp: paired_def concat_axis1_def)
  then show "length (csv_records df False False) = length (df_rows df)"
    unfolding recs by simp
qed

lemma features_layout:
  assumes pair: "paired boston X Y"
    and idx: "set (df_index X) \<subseteq> {0..<length (data boston)}"
    and wid: "list_all (\<lambda>r. length r = 13) (data boston)"
  shows "\<exists>idx. set idx \<subseteq> {0..<length (data boston)} \<and>
           csv_records X False False = map (\<lambda>i. map FValue (data boston ! i)) idx"
    and "list_all (\<lambda>rec. length rec = 13) (csv_records X False False)"
    and "length (csv_records X False False) = length (df_rows X)"
proof -
  note recs = features_records[OF pair]
  from recs idx
  show "\<exists>idx. set idx \<subseteq> {0..<length (data boston)} \<and>
           csv_records X False False = map (\<lambda>i. map FValue (data boston ! i)) idx"
    by blast
  from idx wid have "\<And>i. i \<in> set (df_index X) \<Longrightarrow> length (data boston ! i) = 13"
    by (auto simp: list_all_iff)
  then show "list_all (\<lambda>rec. length rec = 13) (csv_records X False False)"
    unfolding recs by (simp add: list_all_iff)
  from pair show "length (csv_records X False False) = length (df_rows X)"
    unfolding recs by (simp add: paired_def)
qed

subsection \<open>The text of the CSV files\<close>

lemma csv_read_plain:
  assumes "\<not> needs_quotes f"
  shows "csv_read Unquoted cur row (f @ rest) = csv_read Unquoted (cur @ f) row rest"
  using assms
proof (induction f arbitrary: cur)
  case Nil
  show ?case by simp
next
  case (Cons x f)
  from Cons.prems have x: "x \<noteq> CHR 0x22" "x \<noteq> CHR '',''" "x \<noteq> CHR 0x0A"
    and f: "\<not> needs_quotes f"
    by (auto simp: needs_quotes_def)
  show ?case
    using x Cons.IH[OF f, of "cur @ [x]"] by simp
qed

lemma csv_read_quoted:
  "csv_read Quoted cur row
     (concat (map (\<lambda>c. if c = CHR 0x22 then [CHR 0x22, CHR 0x22] else [c]) f) @ CHR 0x22 # rest)
   = csv_read Quote_seen (cur @ f) row rest"
proof (induction f arbitrary: cur)
  case Nil
  show ?case by simp
next
  case (Cons x f)
  show ?case
    using Cons.IH[of "cur @ [x]"] by (cases "x = CHR 0x22") simp_all
qed

lemma csv_read_field:
  shows "csv_read Unquoted [] row (quote_minimal f @ CHR '','' # rest)
           = csv_read Unquoted [] (row @ [f]) rest"
    and "csv_read Unquoted [] row (quote_minimal f @ CHR 0x0A # rest)
           = (row @ [f]) # csv_read Unquoted [] [] rest"
proof -
  show "csv_read Unquoted [] row (quote_minimal f @ CHR '','' # rest)
           = csv_read Unquoted [] (row @ [f]) rest"
  proof (cases "needs_quotes f")
    case True
    then show ?thesis
      using csv_read_quoted[of "[]" row f "CHR '','' # rest"] by (simp add: quote_minimal_def)
  next
    case False
    then show ?thesis
      using csv_read_plain[OF False, of "[]" row "CHR '','' # rest"]
      by (simp add: quote_minimal_def)
  qed
  show "csv_read Unquoted [] row (quote_minimal f @ CHR 0x0A # rest)
           = (row @ [f]) # csv_read Unquoted [] [] rest"
  proof (cases "needs_quotes f")
    case True
    then show ?thesis
      using csv_read_quoted[of "[]" row f "CHR 0x0A # rest"] by (simp add: quote_minimal_def)
  next
    case False
    then show ?thesis
      using csv_read_plain[OF False, of "[]" row "CHR 0x0A # rest"]
      by (simp add: quote_minimal_def)
  qed
qed

lemma csv_read_fields:
  assumes "r \<noteq> []"
  shows "csv_read Unquoted [] row (join '','' (map quote_minimal r) @ CHR 0x0A # rest)
           = (row @ r) # csv_read Unquoted [] [] rest"
  using assms
proof (induction r arbitrary: row)
  case Nil
  then show ?case by simp
next
  case (Cons f r)
  show ?case
  proof (cases r)
    case Nil
    then show ?thesis by (simp add: csv_read_field)
  next
    case (Cons g r')
    then have "r \<noteq> []" by simp
    from Cons.IH[OF this, of "row @ [f]"] show ?thesis
      unfolding Cons by (simp add: csv_read_field)
  qed
qed

lemma csv_read_row:
  assumes "r \<noteq> []"
  shows "csv_read Unquoted [] [] (csv_row r @ rest) = r # csv_read Unquoted [] [] rest"
proof (cases "r = [[]]")
  case True
  then show ?thesis by (simp add: csv_row_def)
next
  case False
  then show ?thesis
    using csv_read_fields[OF assms, of "[]" rest] by (simp add: csv_row_def)
qed

lemma csv_rows_of_rows:
  assumes "\<And>r. r \<in> set recs \<Longrightarrow> r \<noteq> []"
  shows "csv_rows (concat (map csv_row recs)) = recs"
  unfolding csv_rows_def using assms
proof (induction recs)
  case Nil
  show ?case by simp
next
  case (Cons r recs)
  then show ?case by (simp add: csv_read_row)
qed

lemma csv_rows_to_csv:
  assumes "\<And>r. r \<in> set (csv_records df header index) \<Longrightarrow> r \<noteq> []"
  shows "csv_rows (to_csv fmt df header index) = map (map fmt) (csv_records df header index)"
proof -
  have printed: "to_csv fmt df header index
          = concat (map csv_row (map (map fmt) (csv_records df header index)))"
    by (simp add: to_csv_def comp_def)
  have nonempty: "\<And>r. r \<in> set (map (map fmt) (csv_records df header index)) \<Longrightarrow> r \<noteq> []"
    using assms by auto
  show ?thesis
    unfolding printed by (rule csv_rows_of_rows) (rule nonempty)
qed

lemma csv_layout_joined:
  assumes pair: "paired boston X Y"
    and idx: "set (df_index X) \<subseteq> {0..<length (data boston)}"
    and wid: "list_all (\<lambda>r. length r = length (feature_names boston)) (data boston)"
    and cat: "concat_axis1 nan_value Y X = Inr df"
    and path: "path = ''../data/boston/validation.csv'' \<or> path = ''../data/boston/train.csv''"
  shows "csv_layout env boston (To_csv df path False False)"
proof -
  let ?fmt = "\<lambda>v. float_format env (FValue v)"
  note recs = target_features_records[OF pair cat]
  have nonempty: "\<And>r. r \<in> set (csv_records df False False) \<Longrightarrow> r \<noteq> []"
    unfolding recs by auto
  have "csv_rows (to_csv (float_format env) df False False)
          = map (map (float_format env)) (csv_records df False False)"
    by (rule csv_rows_to_csv) (rule nonempty)
  also have "\<dots> = map (\<lambda>i. map ?fmt (target boston ! i # data boston ! i)) (df_index X)"
    unfolding recs by (simp add: comp_def)
  finally have rows: "csv_rows (to_csv (float_format env) df False False)
                = map (\<lambda>i. map ?fmt (target boston ! i # data boston ! i)) (df_index X)" .
  have printed: "to_csv (float_format env) df False False
      = concat (map (\<lambda>i. csv_row (map ?fmt (target boston ! i # data boston ! i))) (df_index X))"
    unfolding to_csv_def recs by (simp add: comp_def)
  from pair cat have len: "length (df_index X) = length (df_rows df)"
    by (auto simp: paired_def concat_axis1_def)
  from idx wid
  have "\<And>i. i \<in> set (df_index X) \<Longrightarrow> length (data boston ! i) = length (feature_names boston)"
    by (auto simp: list_all_iff)
  then have count: "list_all (\<lambda>rec. length rec = length (feature_names boston) + 1)
      (csv_rows (to_csv (float_format env) df False False))"
    unfolding rows by (simp add: list_all_iff)
  have not_test: "path \<noteq> ''../data/boston/test.csv''"
    using path by auto
  show ?thesis
    unfolding csv_layout_def step.case
    using path not_test idx len rows count printed
    by (intro conjI exI[of _ "df_index X"]) simp_all
qed

lemma csv_layout_features:
  assumes pair: "paired boston X Y"
    and idx: "set (df_index X) \<subseteq> {0..<length (data boston)}"
    and wid: "list_all (\<lambda>r. length r = length (feature_names boston)) (data boston)"
    and some: "feature_names boston \<noteq> []"
  shows "csv_layout env boston (To_csv X ''../data/boston/test.csv'' False False)"
proof -
  let ?fmt = "\<lambda>v. float_format env (FValue v)"
  note recs = features_records[OF pair]
  from idx wid
  have width: "\<And>i. i \<in> set (df_index X) \<Longrightarrow> length (data boston ! i) = length (feature_names boston)"
    by (auto simp: list_all_iff)
  have "\<And>i. i \<in> set (df_index X) \<Longrightarrow> data boston ! i \<noteq> []"
    using width some by fastforce
  then have nonempty: "\<And>r. r \<in> set (csv_records X False False) \<Longrightarrow> r \<noteq> []"
    unfolding recs by auto
  have "csv_rows (to_csv (float_format env) X False False)
          = map (map (float_format env)) (csv_records X False False)"
    by (rule csv_rows_to_csv) (rule nonempty)
  also have "\<dots> = map (\<lambda>i. map ?fmt (data boston ! i)) (df_index X)"
    unfolding recs by (simp add: comp_def)
  finally have rows: "csv_rows (to_csv (float_format env) X False False)
                = map (\<lambda>i. map ?fmt (data boston ! i)) (df_index X)" .
  have printed: "to_csv (float_format env) X False False
      = concat (map (\<lambda>i. csv_row (map ?fmt (data boston ! i))) (df_index X))"
    unfolding to_csv_def recs by (simp add: comp_def)
  from pair have len: "length (df_index X) = length (df_rows X)"
    by (simp add: paired_def)
  have count: "list_all (\<lambda>rec. length rec = length (feature_names boston))
      (csv_rows (to_csv (float_format env) X False False))"
    unfolding rows using width by (simp add: list_all_iff)
  show ?thesis
    unfolding csv_layout_def step.case
    using idx len rows count printed
    by (intro conjI exI[of _ "df_index X"]) simp_all
qed

lemma csv_layout_val:
  assumes "split_cell perm1 perm2 boston = Inr s"
    and "concat_axis1 nan_value (Y_val s) (X_val s) = Inr df"
  shows "csv_layout env boston (To_csv df ''../data/boston/validation.csv'' False False)"
  using split_cell_Inr[OF assms(1)] assms(2) by (intro csv_layout_joined) simp_all

lemma csv_layout_train:
  assumes "split_cell perm1 perm2 boston = Inr s"
    and "concat_axis1 nan_value (Y_train s) (X_train s) = Inr df"
  shows "csv_layout env boston (To_csv df ''../data/boston/train.csv'' False False)"
  using split_cell_Inr[OF assms(1)] assms(2) by (intro csv_layout_joined) simp_all

lemma csv_layout_test:
  assumes "split_cell perm1 perm2 boston = Inr s" and "feature_names boston \<noteq> []"
  shows "csv_layout env boston (To_csv (X_test s) ''../data/boston/test.csv'' False False)"
  using split_cell_Inr[OF assms(1)] assms(2) by (intro csv_layout_features) simp_all

lemma csv_layout_other:
  assumes "\<not> is_to_csv c"
  shows "csv_layout env boston c"
  using assms by (cases c) (simp_all add: csv_layout_def is_to_csv_def)

lemma list_all_stmt:
  "list_all P (snd (stmt c r k)) \<longleftrightarrow> P c \<and> (\<forall>x. r = Inr x \<longrightarrow> list_all P (snd (k x)))"
  by (cases r) (auto simp: stmt_def split: prod.splits)

lemma list_all_stmt_if:
  "list_all P (snd (stmt_if b c r k)) \<longleftrightarrow>
     (if b then P c \<and> (r = Inr () \<longrightarrow> list_all P (snd (k ()))) else list_all P (snd (k ())))"
  by (simp add: stmt_if_def list_all_stmt)

lemma list_all_finished: "list_all P (snd finished)"
  by (simp add: finished_def)

lemma deploy_csv_layout:
  assumes "load_boston env = Inr boston"
  shows "list_all (csv_layout env boston) (snd (deploy_notebook env))"
  unfolding deploy_notebook_def
  by (auto simp add: list_all_stmt list_all_stmt_if list_all_finished csv_layout_other
      is_to_csv_def Let_def assms intro: csv_layout_val csv_layout_train)

lemma tuning_csv_layout:
  assumes "load_boston env = Inr boston" and "feature_names boston \<noteq> []"
  shows "list_all (csv_layout env boston) (snd (tuning_notebook env))"
  unfolding tuning_notebook_def
  by (auto simp add: list_all_stmt list_all_stmt_if list_all_finished csv_layout_other
      is_to_csv_def Let_def assms intro: csv_layout_val csv_layout_train csv_layout_test)

lemma ends_where_raised_finished: "ends_where_raised raises finished"
  by (simp add: ends_where_raised_def finished_def)

lemma ends_where_raised_stmt_iff:
  assumes side: "raises c = None \<or> raises c = raised_by r"
  shows "ends_where_raised raises (stmt c r k)
           \<longleftrightarrow> (\<forall>x. r = Inr x \<longrightarrow> ends_where_raised raises (k x))"
proof (cases r)
  case (Inl e)
  with side show ?thesis
    by (auto simp: ends_where_raised_def stmt_def raised_by_def)
next
  case (Inr x)
  have none: "raises c = None"
    using side Inr by (auto simp: raised_by_def)
  obtain res tr where k: "k x = (res, tr)" by (cases "k x")
  have run: "stmt c r k = (res, c # tr)"
    using Inr k by (simp add: stmt_def)
  have "ends_where_raised raises (res, c # tr) \<longleftrightarrow> ends_where_raised raises (res, tr)"
  proof
    assume p: "ends_where_raised raises (res, tr)"
    show "ends_where_raised raises (res, c # tr)"
      unfolding ends_where_raised_def
    proof (intro allI impI, elim conjE)
      fix c' e
      assume mem: "c' \<in> set (snd (res, c # tr))" and raises: "raises c' = Some e"
      with none have in_tr: "c' \<in> set tr" by auto
      with p raises have "res = Some e" "last tr = c'"
        by (auto simp: ends_where_raised_def)
      moreover from in_tr have "tr \<noteq> []" by auto
      ultimately show "fst (res, c # tr) = Some e \<and> last (snd (res, c # tr)) = c'"
        by simp
    qed
  next
    assume p: "ends_where_raised raises (res, c # tr)"
    show "ends_where_raised raises (res, tr)"
      unfolding ends_where_raised_def
    proof (intro allI impI, elim conjE)
      fix c' e
      assume mem: "c' \<in> set (snd (res, tr))" and raises: "raises c' = Some e"
      then have "c' \<in> set (snd (res, c # tr))" by simp
      with p raises have "res = Some e" "last (c # tr) = c'"
        by (auto simp: ends_where_raised_def)
      moreover from mem have "tr \<noteq> []" by auto
      ultimately show "fst (res, tr) = Some e \<and> last (snd (res, tr)) = c'"
        by simp
    qed
  qed
  then show ?thesis
    using Inr k run by simp
qed

lemma ends_where_raised_stmt_if_iff:
  assumes "raises c = None \<or> raises c = raised_by r"
  shows "ends_where_raised raises (stmt_if b c r k) \<longleftrightarrow>
           (if b then r = Inr () \<longrightarrow> ends_where_raised raises (k ())
            else ends_where_raised raises (k ()))"
  using assms by (simp add: stmt_if_def ends_where_raised_stmt_iff)

lemma deploy_write_errors: "ends_where_raised (write_raises env) (deploy_notebook env)"
  unfolding deploy_notebook_def
  by (simp add: ends_where_raised_stmt_iff ends_where_raised_stmt_if_iff
      ends_where_raised_finished write_raises_def Let_def)

lemma tuning_write_errors: "ends_where_raised (write_raises env) (tuning_notebook env)"
  unfolding tuning_notebook_def
  by (simp add: ends_where_raised_stmt_iff ends_where_raised_stmt_if_iff
      ends_where_raised_finished write_raises_def Let_def)

text \<open>
  C8. Take any run of either notebook, complete or not, on a dataset with 13 feature names.
  Every \<^verbatim>\<open>to_csv\<close> call of the run is made with \<^verbatim>\<open>header=False\<close> and \<^verbatim>\<open>index=False\<close> and writes
  one of \<^verbatim>\<open>test.csv\<close>, \<^verbatim>\<open>validation.csv\<close>, \<^verbatim>\<open>train.csv\<close>. The text it hands to the file system
  is, for rows \<open>idx\<close> of the dataset (one for each row of the frame, in order), one line per
  row: for \<^verbatim>\<open>test.csv\<close> the 13 printed feature values of the row, and for the other two files
  the printed target of the row followed by the 13 printed feature values of the same row,
  separated by commas. Read back, the text has exactly these records: no header record, no
  index field, 13 fields per record in \<^verbatim>\<open>test.csv\<close> and 14 in the other two, however the
  platform prints a number. If writing the file raises, the run ends there with that
  exception.
\<close>

theorem csv_row_layout:
  assumes run: "run = deploy_notebook env \<or> run = tuning_notebook env"
    and boston: "load_boston env = Inr boston"
    and width: "length (feature_names boston) = 13"
    and step: "To_csv df path header index \<in> set (snd run)"
  shows "\<not> header \<and> \<not> index
       \<and> path \<in> {''../data/boston/test.csv'', ''../data/boston/validation.csv'',
                  ''../data/boston/train.csv''}
       \<and> (\<exists>idx. set idx \<subseteq> {0..<length (data boston)}
             \<and> length idx = length (df_rows df)
             \<and> to_csv (float_format env) df header index =
                 (if path = ''../data/boston/test.csv''
                  then concat (map (\<lambda>i. csv_row (map (\<lambda>v. float_format env (FValue v))
                                                     (data boston ! i))) idx)
                  else concat (map (\<lambda>i. csv_row (map (\<lambda>v. float_format env (FValue v))
                                                     (target boston ! i # data boston ! i))) idx))
             \<and> csv_rows (to_csv (float_format env) df header index) =
                 (if path = ''../data/boston/test.csv''
                  then map (\<lambda>i. map (\<lambda>v. float_format env (FValue v)) (data boston ! i)) idx
                  else map (\<lambda>i. map (\<lambda>v. float_format env (FValue v))
                                  (target boston ! i # data boston ! i)) idx))
       \<and> list_all
             (\<lambda>rec. length rec = (if path = ''../data/boston/test.csv'' then 13 else 14))
             (csv_rows (to_csv (float_format env) df header index))
       \<and> (\<forall>e. write_file env path (to_csv (float_format env) df header index) = Inl e
             \<longrightarrow> fst run = Some e \<and> last (snd run) = To_csv df path header index)"
proof -
  from width have some: "feature_names boston \<noteq> []" by auto
  from run have "list_all (csv_layout env boston) (snd run)"
    using deploy_csv_layout[OF boston] tuning_csv_layout[OF boston some] by auto
  with step have "csv_layout env boston (To_csv df path header index)"
    by (simp add: list_all_iff)
  then have layout: "\<not> header \<and> \<not> index
       \<and> path \<in> {''../data/boston/test.csv'', ''../data/boston/validation.csv'',
                  ''../data/boston/train.csv''}
       \<and> (\<exists>idx. set idx \<subseteq> {0..<length (data boston)}
             \<and> length idx = length (df_rows df)
             \<and> to_csv (float_format env) df header index =
                 (if path = ''../data/boston/test.csv''
                  then concat (map (\<lambda>i. csv_row (map (\<lambda>v. float_format env (FValue v))
                                                     (data boston ! i))) idx)
                  else concat (map (\<lambda>i. csv_row (map (\<lambda>v. float_format env (FValue v))
                                                     (target boston ! i # data boston ! i))) idx))
             \<and> csv_rows (to_csv (float_format env) df header index) =
                 (if path = ''../data/boston/test.csv''
                  then map (\<lambda>i. map (\<lambda>v. float_format env (FValue v)) (data boston ! i)) idx
                  else map (\<lambda>i. map (\<lambda>v. float_format env (FValue v))
                                  (target boston ! i # data boston ! i)) idx))
       \<and> list_all
             (\<lambda>rec. length rec = (if path = ''../data/boston/test.csv'' then 13 else 14))
             (csv_rows (to_csv (float_format env) df header index))"
    unfolding csv_layout_def step.case width
    by (cases "path = ''../data/boston/test.csv''") auto
  from run have "ends_where_raised (write_raises env) run"
    using deploy_write_errors[of env] tuning_write_errors[of env] by auto
  then have "\<And>e. write_raises env (To_csv df path header index) = Some e
      \<Longrightarrow> fst run = Some e \<and> last (snd run) = To_csv df path header index"
    using step unfolding ends_where_raised_def by blast
  then have written: "\<forall>e. write_file env path (to_csv (float_format env) df header index) = Inl e
             \<longrightarrow> fst run = Some e \<and> last (snd run) = To_csv df path header index"
    by (simp add: write_raises_def raised_by_def)
  from layout written show ?thesis by (intro conjI) (elim conjE; assumption)+
qed

theorem csv_row_layout_witness:
  "To_csv demo_test_frame ''../data/boston/test.csv'' False False
     \<in> set (snd (tuning_notebook demo_env))
   \<and> csv_rows (to_csv (float_format demo_env) demo_test_frame False False) =
       [[''201'', ''202'', ''203'', ''204'', ''205'', ''206'', ''207'', ''208'', ''209'', ''210'',
         ''211'', ''212'', ''213''],
        [''1'', ''2'', ''3'', ''4'', ''5'', ''6'', ''7'', ''8'', ''9'', ''10'', ''11'', ''12'', ''13'']]
   \<and> list_all (\<lambda>rec. length rec = 13)
         (csv_rows (to_csv (float_format demo_env) demo_test_frame False False))
   \<and> To_csv demo_train_frame ''../data/boston/train.csv'' False False
     \<in> set (snd (deploy_notebook failing_write_env))
   \<and> to_csv (float_format failing_write_env) demo_train_frame False False =
       ''33,301,302,303,304,305,306,307,308,309,310,311,312,313'' @ [CHR 0x0A]
   \<and> list_all (\<lambda>rec. length rec = 14)
         (csv_rows (to_csv (float_format failing_write_env) demo_train_frame False False))
   \<and> fst (deploy_notebook failing_write_env) = Some (LibraryError ''OSError'')
   \<and> last (snd (deploy_notebook failing_write_env)) =
       To_csv demo_train_frame ''../data/boston/train.csv'' False False"
proof -
  have boston: "load_boston demo_env = Inr demo_boston"
    "load_boston failing_write_env = Inr demo_boston"
    by (simp_all add: demo_env_def failing_write_env_def)
  have width: "length (feature_names demo_boston) = 13"
    by (simp add: demo_boston_def)
  have test_step: "To_csv demo_test_frame ''../data/boston/test.csv'' False False
      \<in> set (snd (tuning_notebook demo_env))"
    by code_simp
  have train_step: "To_csv demo_train_frame ''../data/boston/train.csv'' False False
      \<in> set (snd (deploy_notebook failing_write_env))"
    by code_simp
  have test_rows: "csv_rows (to_csv (float_format demo_env) demo_test_frame False False) =
       [[''201'', ''202'', ''203'', ''204'', ''205'', ''206'', ''207'', ''208'', ''209'', ''210'',
         ''211'', ''212'', ''213''],
        [''1'', ''2'', ''3'', ''4'', ''5'', ''6'', ''7'', ''8'', ''9'', ''10'', ''11'', ''12'', ''13'']]"
    by code_simp
  have train_text: "to_csv (float_format failing_write_env) demo_train_frame False False =
       ''33,301,302,303,304,305,306,307,308,309,310,311,312,313'' @ [CHR 0x0A]"
    by code_simp
  have fails: "write_file failing_write_env ''../data/boston/train.csv''
      (to_csv (float_format failing_write_env) demo_train_frame False False)
      = Inl (LibraryError ''OSError'')"
    by (simp add: failing_write_env_def)
  from csv_row_layout[OF disjI2[OF refl] boston(1) width test_step]
    csv_row_layout[OF disjI1[OF refl] boston(2) width train_step]
    test_step train_step test_rows train_text fails
  show ?thesis by simp
qed

subsection \<open>Parsing the response\<close>

text \<open>
  What \<^verbatim>\<open>decode('utf-8')\<close> and \<^verbatim>\<open>np.fromstring(..., sep=',')\<close> do with comma-delimited text,
  relative to the number reader: ASCII text decodes to itself, and the text is split at its
  commas, one number read per piece.
\<close>

lemma utf8_ok_ascii:
  assumes "list_all (\<lambda>b. b < 128) bs"
  shows "utf8_ok bs"
  using assms by (induction bs) simp_all

lemma decode_utf8_ascii:
  assumes "list_all (\<lambda>c. (of_char c :: nat) < 128) s"
  shows "decode_utf8 s = Inr s"
proof -
  from assms have "list_all (\<lambda>b. b < 128) (map of_char s :: nat list)"
    by (simp add: list_all_iff)
  then show ?thesis
    by (simp add: decode_utf8_def utf8_ok_ascii)
qed

lemma join_ascii:
  assumes "\<And>x. x \<in> set xs \<Longrightarrow> list_all (\<lambda>c. (of_char c :: nat) < 128) x"
  shows "list_all (\<lambda>c. (of_char c :: nat) < 128) (join '','' xs)"
  using assms by (induction "'',''" xs rule: join.induct) simp_all

lemma join_Cons_append:
  "join sep (x # xs) = x @ (if xs = [] then [] else sep @ join sep xs)"
  by (cases xs) simp_all

lemma comma_not_space: "\<not> is_space CHR '',''"
  by (simp add: is_space_def)

lemma skip_sep_comma:
  assumes "s \<noteq> []" and "\<not> is_space (hd s)"
  shows "skip_sep '','' (CHR '','' # s) = Some s"
  using assms by (cases s) (simp_all add: skip_sep_def comma_not_space)

lemma skip_sep_Nil: "skip_sep '','' [] = None"
  by (simp add: skip_sep_def)

lemma fromstring_join:
  assumes "\<And>v. v \<in> set vs \<Longrightarrow> render v \<noteq> [] \<and> \<not> is_space (hd (render v))"
    and "\<And>v rest. v \<in> set vs \<Longrightarrow> rest = [] \<or> hd rest = CHR '',''
           \<Longrightarrow> reader (render v @ rest) = Some (v, rest)"
  shows "fromstring reader (join '','' (map render vs)) '','' = vs"
  using assms
proof (induction vs)
  case Nil
  show ?case
    by (simp add: fromstring.simps split: option.splits)
next
  case (Cons v vs)
  have hd_v: "render v \<noteq> []" "\<not> is_space (hd (render v))"
    using Cons.prems(1)[of v] by simp_all
  show ?case
  proof (cases vs)
    case Nil
    have "reader (render v @ []) = Some (v, [])"
      by (rule Cons.prems(2)) simp_all
    then show ?thesis
      using hd_v Nil by (simp add: fromstring.simps[of reader "render v"] skip_sep_Nil)
  next
    case (Cons w ws)
    let ?J = "join '','' (map render vs)"
    have J: "?J = render w @ (if ws = [] then [] else '','' @ join '','' (map render ws))"
      unfolding Cons by (simp add: join_Cons_append)
    have w: "render w \<noteq> []" "\<not> is_space (hd (render w))"
      using Cons.prems(1)[of w] Cons by simp_all
    then have J_hd: "?J \<noteq> []" "\<not> is_space (hd ?J)"
      unfolding J by simp_all
    have s: "join '','' (map render (v # vs)) = render v @ CHR '','' # ?J"
      using Cons by simp
    have read: "reader (render v @ CHR '','' # ?J) = Some (v, CHR '','' # ?J)"
      by (rule Cons.prems(2)) simp_all
    have ih: "fromstring reader ?J '','' = vs"
      by (rule Cons.IH) (use Cons.prems in auto)
    show ?thesis
      unfolding s
      using hd_v read ih skip_sep_comma[OF J_hd]
      by (simp add: fromstring.simps[of reader "render v @ CHR '','' # ?J"])
  qed
qed

lemma fromstring_demo: "fromstring read_int ''20,30'' '','' = [20, 30]"
  by code_simp

end
